theory Spec2Isabelle
  imports Complex_Main "HOL-Library.Char_ord" "HOL-Library.List_Lexorder"
    "HOL-Library.Product_Lexorder" "HOL-Library.Multiset"
begin

section \<open>Data model\<close>

text \<open>
  The module \<^verbatim>\<open>custom_code/major_disaster_analysis.py\<close> works on pandas dataframes.
  A dataframe with a known set of columns is a list of rows, each row a record with one
  field per column the code reads. A numeric cell is an \<open>option\<close>: \<open>None\<close> is the
  missing value (NaN). Counts and amounts are whole numbers, GDP per capita an exact
  real. A column without a missing cell is int64 in pandas, a column with one float64;
  the model keeps whole numbers in both, which is what float64 holds exactly up to
  \<open>2 ^ 53\<close> in magnitude. Columns the code never reads
  (country name, disaster type, polygon geometry, ...) are left out: they are carried
  along by every operation and influence no value computed here.
\<close>

record disaster_row =
  ISO :: "string option"
  Year :: "int option"
  Total_Deaths :: "int option"
  No_Injured :: "int option"
  No_Affected :: "int option"
  No_Homeless :: "int option"
  Reconstruction_Costs :: "int option"
  Total_Damages :: "int option"

record gdp_row =
  Code :: "string option"
  Year_gdp :: "int option"
  GDP_per_capita :: "real option"

text \<open>The country polygons of \<^verbatim>\<open>naturalearth_lowres\<close>: the key column and the name.\<close>

record world_row =
  iso_a3 :: string
  name :: string

text \<open>A cell of a column of mixed content, as \<^verbatim>\<open>fillna(0)\<close> makes of a string column.\<close>

datatype cell = Str string | Num int

section \<open>The pandas operations the module calls\<close>

text \<open>
  \<^verbatim>\<open>pd.merge(left, right, how='left', left_on=..., right_on=...)\<close>: every left
  row, in the order of the left table, once per right row with an equal key (in the order
  of the right table), and once with the right columns missing when no right row matches.
  Keys are compared as cells, so a missing key matches a missing key, as in pandas.
\<close>

definition merge_left :: "('l \<Rightarrow> 'k) \<Rightarrow> ('r \<Rightarrow> 'k) \<Rightarrow> 'l list \<Rightarrow> 'r list \<Rightarrow> ('l \<times> 'r option) list" where
  "merge_left left_on right_on left right =
     concat (map (\<lambda>l. case filter (\<lambda>r. right_on r = left_on l) right of
                          [] \<Rightarrow> [(l, None)]
                        | ms \<Rightarrow> map (\<lambda>r. (l, Some r)) ms) left)"

text \<open>
  \<^verbatim>\<open>df.groupby('ISO')\<close>: one group per distinct non-missing key (rows with a missing
  key belong to no group), the groups in ascending order of the key, each group holding
  its rows in the order of the table.
\<close>

definition groupby_ISO :: "disaster_row list \<Rightarrow> (string \<times> disaster_row list) list" where
  "groupby_ISO df =
     map (\<lambda>c. (c, filter (\<lambda>r. ISO r = Some c) df)) (sort (remdups (List.map_filter ISO df)))"

text \<open>The value an addition in int64 ends with: two's complement on 64 bits.\<close>

definition int64 :: "int \<Rightarrow> int" where
  "int64 n = (n + 2 ^ 63) mod 2 ^ 64 - 2 ^ 63"

text \<open>
  \<^verbatim>\<open>.sum()\<close> of a group skips missing cells, and is 0 when nothing is left. The sum of
  an int64 column is taken in int64 and wraps around. The sum of a float64 column (a
  column with a missing cell somewhere in the table) is taken in floating point, which
  rounds once the numbers pass \<open>2 ^ 53\<close>; the model does not round. Code and model agree
  whenever the magnitudes of the cells added sum to \<open>2 ^ 53\<close> at most: then no
  addition of either kind leaves the range where it is exact. Every property of a sum
  stated below is stated under that bound (\<open>sum_abs\<close>).
\<close>

definition sum_skipna :: "('r \<Rightarrow> int option) \<Rightarrow> 'r list \<Rightarrow> int" where
  "sum_skipna col g = int64 (sum_list (List.map_filter col g))"

text \<open>\<^verbatim>\<open>.count()\<close> of a group is the number of its non-missing cells.\<close>

definition count_notna :: "('r \<Rightarrow> int option) \<Rightarrow> 'r list \<Rightarrow> int" where
  "count_notna col g = int (length (filter (\<lambda>r. col r \<noteq> None) g))"

text \<open>
  \<^verbatim>\<open>df.sort_values(col, ascending=False)\<close> on a column without missing cells, as
  pandas computes it: reverse, sort ascending, reverse again. The ascending sort is the
  default \<^verbatim>\<open>quicksort\<close>, which promises no order among equal keys: the order it
  gives them is a function of the array it sorts, and that function is not in the
  source. It is the parameter \<open>ties\<close>: from the array of keys, a rank for each position of
  the table. Rows are ordered by key, rows of equal key by rank, and rows equal in both
  keep the order of the table; a constant \<open>ties\<close> is a stable sort.
\<close>

definition sort_values_desc :: "(int list \<Rightarrow> nat \<Rightarrow> nat) \<Rightarrow> ('r \<Rightarrow> int) \<Rightarrow> 'r list \<Rightarrow> 'r list" where
  "sort_values_desc ties col rows =
     map snd (rev (sort_key (\<lambda>p. (col (snd p), ties (map col rows) (fst p)))
                     (rev (enumerate 0 rows))))"

section \<open>The selector configuration\<close>

datatype vis_type = Disasters | Deaths | Injured | Affected | Homeless | Reconstruction | Damanges

datatype src_column = Year_col | Total_Deaths_col | No_Injured_col | No_Affected_col
  | No_Homeless_col | Reconstruction_Costs_col | Total_Damages_col

datatype out_column = Year_2_col | TD_2_col | num_inj_col | num_aff_col | num_homeless_col
  | num_recon_costs_col | num_damages_col

datatype group_op = Sum | Count

record opts =
  dep_var :: src_column
  dep_var_2 :: out_column
  feature_name :: string
  group_op :: group_op

text \<open>The keys of \<^verbatim>\<open>selector_opts\<close>, in the order of the dictionary.\<close>

definition selector_keys :: "vis_type list" where
  "selector_keys = [Disasters, Deaths, Injured, Affected, Homeless, Reconstruction, Damanges]"

fun selector_label :: "vis_type \<Rightarrow> string" where
  "selector_label Disasters = ''# Disasters''"
| "selector_label Deaths = ''# Deaths''"
| "selector_label Injured = ''# Injured''"
| "selector_label Affected = ''# Affected''"
| "selector_label Homeless = ''# Homeless''"
| "selector_label Reconstruction = ''Reconstruction Costs''"
| "selector_label Damanges = ''Total Damanges''"

fun selector_opts :: "vis_type \<Rightarrow> opts" where
  "selector_opts Disasters =
     \<lparr>dep_var = Year_col, dep_var_2 = Year_2_col, feature_name = ''# Disasters'', group_op = Count\<rparr>"
| "selector_opts Deaths =
     \<lparr>dep_var = Total_Deaths_col, dep_var_2 = TD_2_col, feature_name = ''# Deaths'', group_op = Sum\<rparr>"
| "selector_opts Injured =
     \<lparr>dep_var = No_Injured_col, dep_var_2 = num_inj_col, feature_name = ''# Injured'', group_op = Sum\<rparr>"
| "selector_opts Affected =
     \<lparr>dep_var = No_Affected_col, dep_var_2 = num_aff_col, feature_name = ''# Affected'', group_op = Sum\<rparr>"
| "selector_opts Homeless =
     \<lparr>dep_var = No_Homeless_col, dep_var_2 = num_homeless_col, feature_name = ''# Homeless'', group_op = Sum\<rparr>"
| "selector_opts Reconstruction =
     \<lparr>dep_var = Reconstruction_Costs_col, dep_var_2 = num_recon_costs_col,
      feature_name = ''Reconstruction Costs'', group_op = Sum\<rparr>"
| "selector_opts Damanges =
     \<lparr>dep_var = Total_Damages_col, dep_var_2 = num_damages_col,
      feature_name = ''Total Damanges'', group_op = Sum\<rparr>"

text \<open>Reading a column of the disaster table by its name.\<close>

fun column :: "src_column \<Rightarrow> disaster_row \<Rightarrow> int option" where
  "column Year_col = Year"
| "column Total_Deaths_col = Total_Deaths"
| "column No_Injured_col = No_Injured"
| "column No_Affected_col = No_Affected"
| "column No_Homeless_col = No_Homeless"
| "column Reconstruction_Costs_col = Reconstruction_Costs"
| "column Total_Damages_col = Total_Damages"

section \<open>The per-country table of the dashboard\<close>

text \<open>
  A row of \<^verbatim>\<open>country_var\<close>: the country code (the index of the frame, which line
  121 copies into the column \<^verbatim>\<open>inde\<close>) and the seven renamed aggregate columns. The
  type of the code is a parameter: a string in \<^verbatim>\<open>country_var\<close>, a cell once
  \<^verbatim>\<open>fillna(0)\<close> has run over the merged table.
\<close>

record 'i country_var_row =
  inde :: 'i
  Year_2 :: int
  TD_2 :: int
  num_inj :: int
  num_aff :: int
  num_homeless :: int
  num_recon_costs :: int
  num_damages :: int

fun column_2 :: "out_column \<Rightarrow> 'i country_var_row \<Rightarrow> int" where
  "column_2 Year_2_col = Year_2"
| "column_2 TD_2_col = TD_2"
| "column_2 num_inj_col = num_inj"
| "column_2 num_aff_col = num_aff"
| "column_2 num_homeless_col = num_homeless"
| "column_2 num_recon_costs_col = num_recon_costs"
| "column_2 num_damages_col = num_damages"

text \<open>Lines 101-102: the rows whose year lies between the two years; a missing year
  compares false.\<close>

definition restricted_df :: "int \<Rightarrow> int \<Rightarrow> disaster_row list \<Rightarrow> disaster_row list" where
  "restricted_df start_year end_year natural_disaster_df =
     filter (\<lambda>r. case Year r of None \<Rightarrow> False | Some y \<Rightarrow> start_year \<le> y \<and> y \<le> end_year)
       natural_disaster_df"

text \<open>Lines 105-109: the entry of \<^verbatim>\<open>country_var_dict\<close> for one selector key, on
  one group.\<close>

definition aggregate :: "vis_type \<Rightarrow> disaster_row list \<Rightarrow> int" where
  "aggregate i g =
     (case group_op (selector_opts i) of
        Sum \<Rightarrow> sum_skipna (column (dep_var (selector_opts i))) g
      | Count \<Rightarrow> count_notna (column (dep_var (selector_opts i))) g)"

text \<open>Lines 103-121: the frame built from \<^verbatim>\<open>country_var_dict\<close>, its columns
  renamed from \<^verbatim>\<open>dep_var\<close> to \<^verbatim>\<open>dep_var_2\<close>, one row per group.\<close>

definition country_var :: "disaster_row list \<Rightarrow> string country_var_row list" where
  "country_var restricted =
     map (\<lambda>(c, g). \<lparr>inde = c,
                    Year_2 = aggregate Disasters g,
                    TD_2 = aggregate Deaths g,
                    num_inj = aggregate Injured g,
                    num_aff = aggregate Affected g,
                    num_homeless = aggregate Homeless g,
                    num_recon_costs = aggregate Reconstruction g,
                    num_damages = aggregate Damanges g\<rparr>)
       (groupby_ISO restricted)"

text \<open>Lines 101-121 together, from the two dates of the slider.\<close>

record datetime =
  year :: int
  month :: int
  day :: int

definition country_var_of :: "datetime \<Rightarrow> datetime \<Rightarrow> disaster_row list \<Rightarrow> string country_var_row list" where
  "country_var_of start_time end_time natural_disaster_df =
     country_var (restricted_df (year start_time) (year end_time) natural_disaster_df)"

text \<open>\<^verbatim>\<open>.fillna(0)\<close> on the columns that the merge brought from \<^verbatim>\<open>country_var\<close>:
  a polygon without a partner has all of them missing, and gets 0 in each, also in
  \<^verbatim>\<open>inde\<close>. A column that the merge left with a missing cell has become float64 on the
  way; a whole number up to \<open>2 ^ 53\<close> in magnitude passes through unchanged, and the
  values of matched polygons are stated below for such numbers.\<close>

definition fillna_0 :: "string country_var_row option \<Rightarrow> cell country_var_row" where
  "fillna_0 m =
     (case m of
        None \<Rightarrow> \<lparr>inde = Num 0, Year_2 = 0, TD_2 = 0, num_inj = 0, num_aff = 0,
                 num_homeless = 0, num_recon_costs = 0, num_damages = 0\<rparr>
      | Some r \<Rightarrow> \<lparr>inde = Str (inde r), Year_2 = Year_2 r, TD_2 = TD_2 r, num_inj = num_inj r,
                   num_aff = num_aff r, num_homeless = num_homeless r,
                   num_recon_costs = num_recon_costs r, num_damages = num_damages r\<rparr>)"

text \<open>Line 123: \<^verbatim>\<open>world.merge(country_var, left_on='iso_a3', right_on='inde',
  how='left').fillna(0)\<close>.\<close>

definition world_var :: "world_row list \<Rightarrow> string country_var_row list \<Rightarrow> (world_row \<times> cell country_var_row) list" where
  "world_var world cv = map (\<lambda>(w, m). (w, fillna_0 m)) (merge_left iso_a3 inde world cv)"

text \<open>Lines 135-136: \<^verbatim>\<open>country_var.sort_values(dep_var_2, ascending=False).iloc[:10]\<close>.\<close>

definition bar_rows :: "(int list \<Rightarrow> nat \<Rightarrow> nat) \<Rightarrow> vis_type \<Rightarrow> string country_var_row list \<Rightarrow> string country_var_row list" where
  "bar_rows ties vis cv =
     take 10 (sort_values_desc ties (column_2 (dep_var_2 (selector_opts vis))) cv)"

text \<open>What \<^verbatim>\<open>hv.Bars\<close> plots of those rows: the code and the value of the selected column.\<close>

definition bar_points :: "(int list \<Rightarrow> nat \<Rightarrow> nat) \<Rightarrow> vis_type \<Rightarrow> string country_var_row list \<Rightarrow> (string \<times> int) list" where
  "bar_points ties vis cv =
     map (\<lambda>r. (inde r, column_2 (dep_var_2 (selector_opts vis)) r)) (bar_rows ties vis cv)"

section \<open>The per-country count of the static map\<close>

text \<open>Line 57: \<^verbatim>\<open>natural_disaster_df.groupby('ISO').count()['Year']\<close>, a series from the
  country code to the number of non-missing years of its rows.\<close>

definition country_count :: "disaster_row list \<Rightarrow> (string \<times> int) list" where
  "country_count natural_disaster_df =
     map (\<lambda>(c, g). (c, count_notna Year g)) (groupby_ISO natural_disaster_df)"

text \<open>Lines 62-63: the series as a frame, its column renamed to \<^verbatim>\<open>Year_2\<close>, the index
  copied into \<^verbatim>\<open>inde\<close>.\<close>

record 'i country_count_row =
  count_inde :: 'i
  count_Year_2 :: int

definition country_count_frame :: "(string \<times> int) list \<Rightarrow> string country_count_row list" where
  "country_count_frame ser = map (\<lambda>(c, n). \<lparr>count_inde = c, count_Year_2 = n\<rparr>) ser"

definition fillna_0_count :: "string country_count_row option \<Rightarrow> cell country_count_row" where
  "fillna_0_count m =
     (case m of
        None \<Rightarrow> \<lparr>count_inde = Num 0, count_Year_2 = 0\<rparr>
      | Some r \<Rightarrow> \<lparr>count_inde = Str (count_inde r), count_Year_2 = count_Year_2 r\<rparr>)"

text \<open>Line 65: the merge onto the polygons, and \<^verbatim>\<open>fillna(0)\<close>.\<close>

definition world_count :: "world_row list \<Rightarrow> string country_count_row list \<Rightarrow> (world_row \<times> cell country_count_row) list" where
  "world_count world cc =
     map (\<lambda>(w, m). (w, fillna_0_count m)) (merge_left iso_a3 count_inde world cc)"

section \<open>The table of the scatter plot\<close>

text \<open>Line 33: the left join of the disaster table with the GDP table on
  (\<^verbatim>\<open>ISO\<close>, \<^verbatim>\<open>Year\<close>) = (\<^verbatim>\<open>Code\<close>, \<^verbatim>\<open>Year\<close>).\<close>

definition joined_df :: "disaster_row list \<Rightarrow> gdp_row list \<Rightarrow> (disaster_row \<times> gdp_row option) list" where
  "joined_df natural_disaster_df gdp_df =
     merge_left (\<lambda>l. (ISO l, Year l)) (\<lambda>r. (Code r, Year_gdp r)) natural_disaster_df gdp_df"

text \<open>The two columns of a joined row that the plot reads; a left row without a partner
  has a missing GDP.\<close>

definition joined_Total_Deaths :: "disaster_row \<times> gdp_row option \<Rightarrow> int option" where
  "joined_Total_Deaths j = Total_Deaths (fst j)"

definition joined_GDP_per_capita :: "disaster_row \<times> gdp_row option \<Rightarrow> real option" where
  "joined_GDP_per_capita j = (case snd j of None \<Rightarrow> None | Some g \<Rightarrow> GDP_per_capita g)"

text \<open>Line 35: \<^verbatim>\<open>new_df[new_df['Total Deaths'] > 5000]\<close>; a missing cell compares false.\<close>

definition major_df :: "(disaster_row \<times> gdp_row option) list \<Rightarrow> (disaster_row \<times> gdp_row option) list" where
  "major_df joined =
     filter (\<lambda>j. case joined_Total_Deaths j of None \<Rightarrow> False | Some d \<Rightarrow> d > 5000) joined"

text \<open>Line 36: \<^verbatim>\<open>new_df[['Total Deaths','GDP per capita']].dropna()\<close>.\<close>

definition dropna :: "(int option \<times> real option) list \<Rightarrow> (int option \<times> real option) list" where
  "dropna rows = filter (\<lambda>(d, g). d \<noteq> None \<and> g \<noteq> None) rows"

definition new_df :: "disaster_row list \<Rightarrow> gdp_row list \<Rightarrow> (int option \<times> real option) list" where
  "new_df natural_disaster_df gdp_df =
     dropna (map (\<lambda>j. (joined_Total_Deaths j, joined_GDP_per_capita j))
               (major_df (joined_df natural_disaster_df gdp_df)))"

section \<open>Objects, references and the entry points\<close>

text \<open>
  Python passes dataframes by reference, and one statement of the module writes into a
  frame in place (\<^verbatim>\<open>country_var['inde'] = country_var.index\<close>). The objects live in a
  heap, a list addressed by position; a pandas call that returns a new frame appends it.
  A frame made by \<^verbatim>\<open>rename\<close> carries a flag: whether the column \<^verbatim>\<open>inde\<close> has been
  added yet. \<open>OtherFrame\<close> is a dataframe without the columns the module reads,
  \<open>NotAFrame\<close> any object that is not a dataframe.
\<close>

datatype obj =
    DisasterFrame "disaster_row list"
  | GdpFrame "gdp_row list"
  | WorldFrame "world_row list"
  | JoinedFrame "(disaster_row \<times> gdp_row option) list"
  | ScatterFrame "(int option \<times> real option) list"
  | CountSeries "(string \<times> int) list"
  | CountFrame bool "string country_count_row list"
  | CountryVarFrame bool "string country_var_row list"
  | WorldCountFrame "(world_row \<times> cell country_count_row) list"
  | WorldVarFrame "(world_row \<times> cell country_var_row) list"
  | OtherFrame
  | NotAFrame

text \<open>The state: the heap, the polygon dataset on disk that \<^verbatim>\<open>geopandas.read_file\<close>
  reads, the order the installed \<^verbatim>\<open>quicksort\<close> gives to equal keys, and the point
  sets of the scatter plots shown so far.\<close>

record state =
  heap :: "obj list"
  naturalearth_lowres :: "world_row list"
  quicksort_ties :: "int list \<Rightarrow> nat \<Rightarrow> nat"
  figures :: "(int option \<times> real option) list list"

datatype error = AssertionError | KeyError | TypeError | ValueError | OverflowError

definition deref :: "state \<Rightarrow> nat \<Rightarrow> obj" where
  "deref s a = (if a < length (heap s) then heap s ! a else NotAFrame)"

definition alloc :: "obj \<Rightarrow> state \<Rightarrow> state" where
  "alloc v s = s\<lparr>heap := heap s @ [v]\<rparr>"

text \<open>\<^verbatim>\<open>isinstance(x, pd.DataFrame)\<close>; a series is not a dataframe.\<close>

fun isinstance_DataFrame :: "obj \<Rightarrow> bool" where
  "isinstance_DataFrame NotAFrame = False"
| "isinstance_DataFrame (CountSeries ser) = False"
| "isinstance_DataFrame v = True"

text \<open>\<^verbatim>\<open>frame['inde'] = frame.index\<close>, in place, on the frame at address \<open>a\<close>.\<close>

definition setitem_inde :: "nat \<Rightarrow> state \<Rightarrow> state" where
  "setitem_inde a s =
     s\<lparr>heap := (heap s)[a := (case deref s a of
                                 CountFrame b rows \<Rightarrow> CountFrame True rows
                               | CountryVarFrame b rows \<Rightarrow> CountryVarFrame True rows
                               | v \<Rightarrow> v)]\<rparr>"

subsection \<open>\<^verbatim>\<open>death_vs_gdp\<close>\<close>

text \<open>The function returns \<^verbatim>\<open>None\<close>; what it shows is appended to \<open>figures\<close>.\<close>

definition death_vs_gdp :: "state \<Rightarrow> nat \<Rightarrow> nat \<Rightarrow> state \<times> (error + unit)" where
  "death_vs_gdp s natural_disaster_df gdp_df =
     (if \<not> isinstance_DataFrame (deref s natural_disaster_df) then (s, Inl AssertionError)
      else if \<not> isinstance_DataFrame (deref s gdp_df) then (s, Inl AssertionError)
      else case (deref s natural_disaster_df, deref s gdp_df) of
        (DisasterFrame nd, GdpFrame gdp) \<Rightarrow>
          let joined = joined_df nd gdp;
              s1 = alloc (JoinedFrame joined) s;
              major = major_df joined;
              s2 = alloc (JoinedFrame major) s1;
              points = dropna (map (\<lambda>j. (joined_Total_Deaths j, joined_GDP_per_capita j)) major);
              s3 = alloc (ScatterFrame points) s2
          in (s3\<lparr>figures := figures s3 @ [points]\<rparr>, Inr ())
      | _ \<Rightarrow> (s, Inl KeyError))"

subsection \<open>\<^verbatim>\<open>major_disaster_distribution\<close>\<close>

text \<open>The returned \<^verbatim>\<open>gv.Polygons\<close>: its table and its value dimensions.\<close>

record count_polygons =
  count_data :: "(world_row \<times> cell country_count_row) list"
  count_vdims :: "(string \<times> string) list"

definition major_disaster_distribution :: "state \<Rightarrow> nat \<Rightarrow> state \<times> (error + count_polygons)" where
  "major_disaster_distribution s natural_disaster_df =
     (if \<not> isinstance_DataFrame (deref s natural_disaster_df) then (s, Inl AssertionError)
      else case deref s natural_disaster_df of
        DisasterFrame nd \<Rightarrow>
          let ser = country_count nd;
              s1 = alloc (CountSeries ser) s;
              world = naturalearth_lowres s1;
              s2 = alloc (WorldFrame world) s1;
              a = length (heap s2);
              s3 = alloc (CountFrame False (country_count_frame ser)) s2;
              s4 = setitem_inde a s3
          in (case deref s4 a of
                CountFrame True cc \<Rightarrow>
                  let merged = world_count world cc;
                      s5 = alloc (WorldCountFrame merged) s4
                  in (s5, Inr \<lparr>count_data = merged,
                               count_vdims = [(''Year_2'', ''# disasters''), (''name'', ''Country'')]\<rparr>)
              | _ \<Rightarrow> (s4, Inl KeyError))
      | _ \<Rightarrow> (s, Inl KeyError))"

subsection \<open>\<^verbatim>\<open>map_distribution_cases\<close> and its callback\<close>

text \<open>
  \<^verbatim>\<open>natural_disaster_df['Year'].min()\<close>: an integer when the column has no missing cell
  and is not empty (an int64 column); otherwise a float, NaN when there is no value at all
  (a column with a missing cell is float64, and the minimum of nothing is NaN).
\<close>

datatype scalar = PyInt int | PyFloat "int option"

definition series_min :: "int option list \<Rightarrow> scalar" where
  "series_min col =
     (case List.map_filter (\<lambda>x. x) col of
        [] \<Rightarrow> PyFloat None
      | v # vs \<Rightarrow> if list_all (\<lambda>x. x \<noteq> None) col then PyInt (fold min vs v)
                  else PyFloat (Some (fold min vs v)))"

definition series_max :: "int option list \<Rightarrow> scalar" where
  "series_max col =
     (case List.map_filter (\<lambda>x. x) col of
        [] \<Rightarrow> PyFloat None
      | v # vs \<Rightarrow> if list_all (\<lambda>x. x \<noteq> None) col then PyInt (fold max vs v)
                  else PyFloat (Some (fold max vs v)))"

fun plus_1 :: "scalar \<Rightarrow> scalar" where
  "plus_1 (PyInt y) = PyInt (y + 1)"
| "plus_1 (PyFloat v) = PyFloat (map_option (\<lambda>y. y + 1) v)"

text \<open>\<^verbatim>\<open>dt.datetime(y, 1, 1)\<close>: a float is refused with a TypeError, an integer that
  does not fit a C \<^verbatim>\<open>int\<close> with an OverflowError, and a year outside 1..9999 with a
  ValueError.\<close>

fun datetime_1_1 :: "scalar \<Rightarrow> error + datetime" where
  "datetime_1_1 (PyFloat v) = Inl TypeError"
| "datetime_1_1 (PyInt y) =
     (if y < - (2 ^ 31) \<or> 2 ^ 31 \<le> y then Inl OverflowError
      else if 1 \<le> y \<and> y \<le> 9999 then Inr \<lparr>year = y, month = 1, day = 1\<rparr>
      else Inl ValueError)"

datatype pyarg = PyBool bool | PyOther

fun isinstance_bool :: "pyarg \<Rightarrow> bool" where
  "isinstance_bool (PyBool b) = True"
| "isinstance_bool PyOther = False"

text \<open>The returned layout: the range and the value of the date slider, the options of
  the selector, the frame the callback closes over, and the form of the result.\<close>

record dashboard =
  dateslider_start :: datetime
  dateslider_end :: datetime
  dateslider_value :: "datetime \<times> datetime"
  selector_options :: "string list"
  callback_df :: nat
  as_ipywidget :: bool

definition map_distribution_cases :: "state \<Rightarrow> nat \<Rightarrow> pyarg \<Rightarrow> state \<times> (error + dashboard)" where
  "map_distribution_cases s natural_disaster_df voila =
     (if \<not> isinstance_DataFrame (deref s natural_disaster_df) then (s, Inl AssertionError)
      else if \<not> isinstance_bool voila then (s, Inl AssertionError)
      else case deref s natural_disaster_df of
        DisasterFrame nd \<Rightarrow>
          (case datetime_1_1 (series_min (map Year nd)) of
             Inl e \<Rightarrow> (s, Inl e)
           | Inr min_date \<Rightarrow>
               (case datetime_1_1 (plus_1 (series_max (map Year nd))) of
                  Inl e \<Rightarrow> (s, Inl e)
                | Inr max_date \<Rightarrow>
                    (s, Inr \<lparr>dateslider_start = min_date, dateslider_end = max_date,
                            dateslider_value = (min_date, max_date),
                            selector_options = map selector_label selector_keys,
                            callback_df = natural_disaster_df,
                            as_ipywidget = (voila = PyBool True)\<rparr>)))
      | _ \<Rightarrow> (s, Inl KeyError))"

text \<open>The two visuals \<^verbatim>\<open>ax + bar\<close> of the callback: the table of the polygons with the
  column that colours them, and the points of the bar chart.\<close>

record layout =
  ax_data :: "(world_row \<times> cell country_var_row) list"
  ax_color_index :: out_column
  bar_data :: "(string \<times> int) list"

text \<open>\<^verbatim>\<open>major_disaster_map\<close>, the callback bound to the slider and the selector. It closes
  over the reference \<open>natural_disaster_df\<close>. With \<open>vis_type\<close> left at its default
  \<^verbatim>\<open>None\<close>, line 131 raises a KeyError.\<close>

definition major_disaster_map :: "state \<Rightarrow> nat \<Rightarrow> datetime \<Rightarrow> datetime \<Rightarrow> vis_type option \<Rightarrow> state \<times> (error + layout)" where
  "major_disaster_map s natural_disaster_df start_time end_time vis_type =
     (case deref s natural_disaster_df of
        DisasterFrame nd \<Rightarrow>
          let restricted = restricted_df (year start_time) (year end_time) nd;
              s1 = alloc (DisasterFrame restricted) s;
              world = naturalearth_lowres s1;
              s2 = alloc (WorldFrame world) s1;
              a = length (heap s2);
              s3 = alloc (CountryVarFrame False (country_var restricted)) s2;
              s4 = setitem_inde a s3
          in (case deref s4 a of
                CountryVarFrame True cv \<Rightarrow>
                  let merged = world_var world cv;
                      s5 = alloc (WorldVarFrame merged) s4
                  in (case vis_type of
                        None \<Rightarrow> (s5, Inl KeyError)
                      | Some v \<Rightarrow>
                          let sorted_cv = sort_values_desc (quicksort_ties s5)
                                            (column_2 (dep_var_2 (selector_opts v))) cv;
                              s6 = alloc (CountryVarFrame True sorted_cv) s5;
                              s7 = alloc (CountryVarFrame True (take 10 sorted_cv)) s6
                          in (s7, Inr \<lparr>ax_data = merged,
                                       ax_color_index = dep_var_2 (selector_opts v),
                                       bar_data = bar_points (quicksort_ties s5) v cv\<rparr>))
              | _ \<Rightarrow> (s4, Inl KeyError))
      | _ \<Rightarrow> (s, Inl KeyError))"

section \<open>Vocabulary of the properties\<close>

text \<open>A list of plotted values that never rises, and one that falls at every step.\<close>

fun descending :: "int list \<Rightarrow> bool" where
  "descending (x # y # ys) = (y \<le> x \<and> descending (y # ys))"
| "descending xs = True"

fun strictly_descending :: "int list \<Rightarrow> bool" where
  "strictly_descending (x # y # ys) = (y < x \<and> strictly_descending (y # ys))"
| "strictly_descending xs = True"

text \<open>The magnitudes of the present cells of a column, added up: the bound under which
  a sum of the column is exact in int64 and in float64 alike.\<close>

definition sum_abs :: "('r \<Rightarrow> int option) \<Rightarrow> 'r list \<Rightarrow> int" where
  "sum_abs col g = (\<Sum>r\<leftarrow>g. case col r of None \<Rightarrow> 0 | Some x \<Rightarrow> \<bar>x\<bar>)"

text \<open>The bars of a result of the callback; none when it raised.\<close>

definition bar_data_of :: "state \<times> (error + layout) \<Rightarrow> (string \<times> int) list" where
  "bar_data_of res = (case snd res of Inl e \<Rightarrow> [] | Inr out \<Rightarrow> bar_data out)"

text \<open>The table of the polygons of a result of the callback, and of the static map.\<close>

definition ax_data_of :: "state \<times> (error + layout) \<Rightarrow> (world_row \<times> cell country_var_row) list" where
  "ax_data_of res = (case snd res of Inl e \<Rightarrow> [] | Inr out \<Rightarrow> ax_data out)"

definition count_data_of :: "state \<times> (error + count_polygons) \<Rightarrow> (world_row \<times> cell country_count_row) list" where
  "count_data_of res = (case snd res of Inl e \<Rightarrow> [] | Inr out \<Rightarrow> count_data out)"

text \<open>The count of the static map as the specification words it: the number of disaster
  rows of a country code, whatever their year.\<close>

definition rows_of_country :: "string \<Rightarrow> disaster_row list \<Rightarrow> int" where
  "rows_of_country c df = int (length (filter (\<lambda>r. ISO r = Some c) df))"

section \<open>Example inputs\<close>

definition event :: "string \<Rightarrow> int option \<Rightarrow> int option \<Rightarrow> disaster_row" where
  "event c y d =
     \<lparr>ISO = Some c, Year = y, Total_Deaths = d, No_Injured = None, No_Affected = None,
      No_Homeless = None, Reconstruction_Costs = None, Total_Damages = None\<rparr>"

definition jan_1 :: "int \<Rightarrow> datetime" where
  "jan_1 y = \<lparr>year = y, month = 1, day = 1\<rparr>"

definition example_world :: "world_row list" where
  "example_world =
     [\<lparr>iso_a3 = ''USA'', name = ''United States of America''\<rparr>, \<lparr>iso_a3 = ''FRA'', name = ''France''\<rparr>]"

text \<open>A state holding a disaster table at address 0, a GDP table at address 1, and at
  address 2 an object that is not a dataframe; its sort keeps equal keys in the order of
  the table.\<close>

definition example_state :: "disaster_row list \<Rightarrow> gdp_row list \<Rightarrow> state" where
  "example_state df gdp =
     \<lparr>heap = [DisasterFrame df, GdpFrame gdp, NotAFrame], naturalearth_lowres = example_world,
      quicksort_ties = (\<lambda>keys i. 0), figures = []\<rparr>"

definition example_df :: "disaster_row list" where
  "example_df =
     [event ''USA'' (Some 2000) (Some 5), event ''CHN'' (Some 2000) (Some 7),
      event ''USA'' (Some 2000) (Some 5), event ''USA'' (Some 2001) (Some 100),
      event ''FRA'' (Some 2000) None]"

definition tie_df :: "disaster_row list" where
  "tie_df = [event ''USA'' (Some 2000) (Some 5), event ''CHN'' (Some 2000) (Some 5)]"

definition nan_year_df :: "disaster_row list" where
  "nan_year_df = [event ''USA'' None (Some 5)]"

definition scatter_df :: "disaster_row list" where
  "scatter_df = [event ''USA'' (Some 2000) (Some 6000), event ''CHN'' (Some 2000) (Some 3000)]"

definition scatter_gdp :: "gdp_row list" where
  "scatter_gdp =
     [\<lparr>Code = Some ''USA'', Year_gdp = Some 2000, GDP_per_capita = Some 500\<rparr>,
      \<lparr>Code = Some ''CHN'', Year_gdp = Some 2000, GDP_per_capita = Some 700\<rparr>]"

section \<open>Facts about the pandas operations\<close>

lemma set_map_filter: "set (List.map_filter f xs) = {y. \<exists>x\<in>set xs. f x = Some y}"
  by (induction xs) (auto simp: List.map_filter_simps split: option.splits)

lemma map_fst_groupby_ISO: "map fst (groupby_ISO df) = sort (remdups (List.map_filter ISO df))"
  by (simp add: groupby_ISO_def comp_def)

lemma distinct_keys_groupby_ISO: "distinct (map fst (groupby_ISO df))"
  by (simp add: map_fst_groupby_ISO)

lemma set_keys_groupby_ISO: "set (map fst (groupby_ISO df)) = {c. \<exists>r\<in>set df. ISO r = Some c}"
  by (simp add: map_fst_groupby_ISO set_map_filter)

lemma groupby_ISO_group: "(c, g) \<in> set (groupby_ISO df) \<Longrightarrow> g = filter (\<lambda>r. ISO r = Some c) df"
  by (auto simp: groupby_ISO_def)

lemma map_inde_country_var: "map inde (country_var df) = map fst (groupby_ISO df)"
  by (simp add: country_var_def comp_def case_prod_beta)

lemma filter_restricted_df:
  "filter P (restricted_df a b df) =
     filter (\<lambda>r. (case Year r of None \<Rightarrow> False | Some y \<Rightarrow> a \<le> y \<and> y \<le> b) \<and> P r) df"
  by (simp add: restricted_df_def conj_commute)

lemma set_restricted_df:
  "set (restricted_df a b df) = {r \<in> set df. \<exists>y. Year r = Some y \<and> a \<le> y \<and> y \<le> b}"
  by (auto simp: restricted_df_def split: option.splits)

lemma filter_unique_key:
  "distinct (map rk right) \<Longrightarrow>
   filter (\<lambda>r. rk r = k) right = (case find (\<lambda>r. rk r = k) right of None \<Rightarrow> [] | Some r \<Rightarrow> [r])"
proof (induction right)
  case Nil
  then show ?case by simp
next
  case (Cons r rs)
  have "filter (\<lambda>x. rk x = k) rs = []" if "rk r = k"
  proof -
    from Cons.prems that have "k \<notin> set (map rk rs)" by simp
    then have "\<forall>x\<in>set rs. rk x \<noteq> k" by auto
    then show ?thesis by (simp add: filter_empty_conv)
  qed
  with Cons show ?case by simp
qed

lemma merge_left_unique_key:
  assumes "distinct (map rk right)"
  shows "merge_left lk rk left right = map (\<lambda>l. (l, find (\<lambda>r. rk r = lk l) right)) left"
proof -
  have "(case filter (\<lambda>r. rk r = lk l) right of [] \<Rightarrow> [(l, None)] | ms \<Rightarrow> map (\<lambda>r. (l, Some r)) ms)
        = [(l, find (\<lambda>r. rk r = lk l) right)]" for l
    by (simp add: filter_unique_key [OF assms] split: option.splits)
  then show ?thesis
    by (simp add: merge_left_def)
qed

lemma country_var_row_of:
  "row \<in> set (country_var df) \<Longrightarrow>
   column_2 (dep_var_2 (selector_opts v)) row = aggregate v (filter (\<lambda>r. ISO r = Some (inde row)) df)"
  by (cases v) (auto simp: country_var_def dest: groupby_ISO_group)

section \<open>Facts about the heap\<close>

lemma heap_alloc: "heap (alloc v s) = heap s @ [v]"
  by (simp add: alloc_def)

lemma naturalearth_alloc: "naturalearth_lowres (alloc v s) = naturalearth_lowres s"
  by (simp add: alloc_def)

lemma figures_alloc: "figures (alloc v s) = figures s"
  by (simp add: alloc_def)

lemma quicksort_ties_alloc: "quicksort_ties (alloc v s) = quicksort_ties s"
  by (simp add: alloc_def)

lemma quicksort_ties_setitem_inde: "quicksort_ties (setitem_inde a s) = quicksort_ties s"
  by (simp add: setitem_inde_def)

lemma deref_alloc_new: "deref (alloc v s) (length (heap s)) = v"
  by (simp add: deref_def alloc_def)

lemma deref_alloc_old: "a < length (heap s) \<Longrightarrow> deref (alloc v s) a = deref s a"
  by (simp add: deref_def alloc_def nth_append)

lemma length_heap_setitem_inde: "length (heap (setitem_inde a s)) = length (heap s)"
  by (simp add: setitem_inde_def)

lemma naturalearth_setitem_inde: "naturalearth_lowres (setitem_inde a s) = naturalearth_lowres s"
  by (simp add: setitem_inde_def)

lemma figures_setitem_inde: "figures (setitem_inde a s) = figures s"
  by (simp add: setitem_inde_def)

lemma deref_setitem_inde_other: "b \<noteq> a \<Longrightarrow> deref (setitem_inde a s) b = deref s b"
  by (simp add: setitem_inde_def deref_def)

lemma setitem_inde_CountFrame:
  "deref s a = CountFrame b rows \<Longrightarrow> deref (setitem_inde a s) a = CountFrame True rows"
  by (auto simp: setitem_inde_def deref_def split: if_splits)

lemma setitem_inde_CountryVarFrame:
  "deref s a = CountryVarFrame b rows \<Longrightarrow> deref (setitem_inde a s) a = CountryVarFrame True rows"
  by (auto simp: setitem_inde_def deref_def split: if_splits)

lemma major_disaster_map_returns:
  assumes "deref s natural_disaster_df = DisasterFrame nd"
  shows "snd (major_disaster_map s natural_disaster_df start_time end_time (Some v)) =
           Inr \<lparr>ax_data = world_var (naturalearth_lowres s) (country_var_of start_time end_time nd),
                ax_color_index = dep_var_2 (selector_opts v),
                bar_data = bar_points (quicksort_ties s) v (country_var_of start_time end_time nd)\<rparr>"
proof -
  let ?s2 = "alloc (WorldFrame (naturalearth_lowres s))
               (alloc (DisasterFrame (restricted_df (year start_time) (year end_time) nd)) s)"
  let ?cv = "country_var (restricted_df (year start_time) (year end_time) nd)"
  have "deref (setitem_inde (length (heap ?s2)) (alloc (CountryVarFrame False ?cv) ?s2)) (length (heap ?s2))
          = CountryVarFrame True ?cv"
    by (rule setitem_inde_CountryVarFrame) (rule deref_alloc_new)
  then show ?thesis
    using assms
    by (simp add: major_disaster_map_def Let_def naturalearth_alloc country_var_of_def
        quicksort_ties_alloc quicksort_ties_setitem_inde)
qed

lemma major_disaster_distribution_returns:
  assumes "deref s natural_disaster_df = DisasterFrame nd"
  shows "snd (major_disaster_distribution s natural_disaster_df) =
           Inr \<lparr>count_data = world_count (naturalearth_lowres s) (country_count_frame (country_count nd)),
                count_vdims = [(''Year_2'', ''# disasters''), (''name'', ''Country'')]\<rparr>"
proof -
  let ?s2 = "alloc (WorldFrame (naturalearth_lowres s)) (alloc (CountSeries (country_count nd)) s)"
  let ?cc = "country_count_frame (country_count nd)"
  have "deref (setitem_inde (length (heap ?s2)) (alloc (CountFrame False ?cc) ?s2)) (length (heap ?s2))
          = CountFrame True ?cc"
    by (rule setitem_inde_CountFrame) (rule deref_alloc_new)
  then show ?thesis
    using assms
    by (simp add: major_disaster_distribution_def Let_def naturalearth_alloc)
qed

lemma death_vs_gdp_returns:
  assumes "deref s natural_disaster_df = DisasterFrame nd" and "deref s gdp_df = GdpFrame gdp"
  shows "snd (death_vs_gdp s natural_disaster_df gdp_df) = Inr ()"
    and "figures (fst (death_vs_gdp s natural_disaster_df gdp_df)) = figures s @ [new_df nd gdp]"
  using assms by (simp_all add: death_vs_gdp_def Let_def figures_alloc new_df_def)

lemma length_heap_alloc: "length (heap (alloc v s)) = Suc (length (heap s))"
  by (simp add: alloc_def)

lemma deref_figures_update: "deref (s\<lparr>figures := f\<rparr>) a = deref s a"
  by (simp add: deref_def)

lemmas frame_simps = deref_alloc_old deref_setitem_inde_other length_heap_alloc
  length_heap_setitem_inde naturalearth_alloc naturalearth_setitem_inde deref_figures_update
  quicksort_ties_alloc quicksort_ties_setitem_inde

lemma death_vs_gdp_frame:
  "a < length (heap s) \<Longrightarrow> deref (fst (death_vs_gdp s natural_disaster_df gdp_df)) a = deref s a"
  by (simp add: death_vs_gdp_def Let_def frame_simps split: obj.splits)

lemma death_vs_gdp_world:
  "naturalearth_lowres (fst (death_vs_gdp s natural_disaster_df gdp_df)) = naturalearth_lowres s"
  by (simp add: death_vs_gdp_def Let_def frame_simps split: obj.splits)

lemma major_disaster_distribution_frame:
  "a < length (heap s) \<Longrightarrow> deref (fst (major_disaster_distribution s natural_disaster_df)) a = deref s a"
  by (simp add: major_disaster_distribution_def Let_def frame_simps split: obj.splits bool.splits)

lemma major_disaster_distribution_world:
  "naturalearth_lowres (fst (major_disaster_distribution s natural_disaster_df)) = naturalearth_lowres s"
  by (simp add: major_disaster_distribution_def Let_def frame_simps split: obj.splits bool.splits)

lemma major_disaster_map_frame:
  "a < length (heap s) \<Longrightarrow>
   deref (fst (major_disaster_map s natural_disaster_df start_time end_time vis_type)) a = deref s a"
  by (simp add: major_disaster_map_def Let_def frame_simps split: obj.splits bool.splits option.splits)

lemma major_disaster_map_world:
  "naturalearth_lowres (fst (major_disaster_map s natural_disaster_df start_time end_time vis_type)) =
     naturalearth_lowres s"
  by (simp add: major_disaster_map_def Let_def frame_simps split: obj.splits bool.splits option.splits)

lemma death_vs_gdp_ties:
  "quicksort_ties (fst (death_vs_gdp s natural_disaster_df gdp_df)) = quicksort_ties s"
  by (simp add: death_vs_gdp_def Let_def frame_simps split: obj.splits)

lemma major_disaster_distribution_ties:
  "quicksort_ties (fst (major_disaster_distribution s natural_disaster_df)) = quicksort_ties s"
  by (simp add: major_disaster_distribution_def Let_def frame_simps split: obj.splits bool.splits)

lemma major_disaster_map_ties:
  "quicksort_ties (fst (major_disaster_map s natural_disaster_df start_time end_time vis_type)) =
     quicksort_ties s"
  by (simp add: major_disaster_map_def Let_def frame_simps split: obj.splits bool.splits option.splits)

lemma map_distribution_cases_state:
  "fst (map_distribution_cases s natural_disaster_df voila) = s"
  by (simp add: map_distribution_cases_def split: obj.splits sum.splits)

section \<open>Facts about the per-country table and the maps\<close>

lemma int64_id: "- (2 ^ 63) \<le> n \<Longrightarrow> n < 2 ^ 63 \<Longrightarrow> int64 n = n"
  by (simp add: int64_def)

lemma sum_list_map_filter:
  "sum_list (List.map_filter col g) = (\<Sum>r\<leftarrow>g. case col r of None \<Rightarrow> 0 | Some x \<Rightarrow> x)"
  by (induction g) (simp_all add: List.map_filter_simps split: option.splits)

lemma abs_sum_le_sum_abs:
  "\<bar>\<Sum>r\<leftarrow>g. case col r of None \<Rightarrow> 0 | Some x \<Rightarrow> x\<bar> \<le> sum_abs col g"
  unfolding sum_abs_def
  by (induction g) (auto split: option.splits)

text \<open>Within the bound the wrap-around does nothing: the sum is the sum.\<close>

lemma sum_skipna_exact:
  assumes "sum_abs col g \<le> 2 ^ 53"
  shows "sum_skipna col g = (\<Sum>r\<leftarrow>g. case col r of None \<Rightarrow> 0 | Some x \<Rightarrow> x)"
    and "\<bar>sum_skipna col g\<bar> \<le> 2 ^ 53"
proof -
  let ?t = "\<Sum>r\<leftarrow>g. case col r of None \<Rightarrow> 0 | Some x \<Rightarrow> x"
  from assms abs_sum_le_sum_abs [of col g] have t: "\<bar>?t\<bar> \<le> 2 ^ 53"
    by linarith
  then have "- (2 ^ 63) \<le> ?t" and "?t < 2 ^ 63"
    by simp_all
  then have "int64 ?t = ?t"
    by (rule int64_id)
  then show "sum_skipna col g = ?t"
    by (simp add: sum_skipna_def sum_list_map_filter)
  with t show "\<bar>sum_skipna col g\<bar> \<le> 2 ^ 53"
    by simp
qed

lemma sum_skipna_all_missing: "\<forall>r\<in>set g. col r = None \<Longrightarrow> sum_skipna col g = 0"
proof -
  assume "\<forall>r\<in>set g. col r = None"
  then have "(\<Sum>r\<leftarrow>g. case col r of None \<Rightarrow> 0 | Some x \<Rightarrow> x) = (0::int)"
    by (induction g) simp_all
  then show ?thesis
    by (simp add: sum_skipna_def sum_list_map_filter int64_def)
qed

lemma count_notna_alt: "count_notna col g = int (length (filter (\<lambda>r. col r \<noteq> None) g))"
  by (simp add: count_notna_def)

lemma distinct_inde_country_var: "distinct (map inde (country_var df))"
  by (simp add: map_inde_country_var distinct_keys_groupby_ISO)

lemma set_inde_country_var: "set (map inde (country_var df)) = {c. \<exists>r\<in>set df. ISO r = Some c}"
  by (simp only: map_inde_country_var set_keys_groupby_ISO)

lemma year_2000_iff:
  "(case y of None \<Rightarrow> False | Some v \<Rightarrow> (2000::int) \<le> v \<and> v \<le> 2000) \<longleftrightarrow> y = Some 2000"
  by (cases y) auto

lemma column_2_fillna_0_None: "column_2 c (fillna_0 None) = 0"
  by (cases c) (simp_all add: fillna_0_def)

lemma column_2_fillna_0_Some: "column_2 c (fillna_0 (Some r)) = column_2 c r"
  by (cases c) (simp_all add: fillna_0_def)

lemma world_var_unique:
  "world_var world (country_var df) =
     map (\<lambda>w. (w, fillna_0 (find (\<lambda>r. inde r = iso_a3 w) (country_var df)))) world"
  by (simp add: world_var_def merge_left_unique_key [OF distinct_inde_country_var])

lemma map_fst_world_var: "map fst (world_var world (country_var df)) = world"
  by (simp add: world_var_unique comp_def)

lemma world_var_absent:
  assumes "(w, v) \<in> set (world_var world (country_var df))"
    and "iso_a3 w \<notin> set (map inde (country_var df))"
  shows "v = fillna_0 None"
proof -
  from assms(2) have "find (\<lambda>r. inde r = iso_a3 w) (country_var df) = None"
    by (fastforce simp: find_None_iff image_iff)
  with assms(1) show ?thesis by (auto simp: world_var_unique)
qed

lemma world_var_present:
  assumes "(w, v) \<in> set (world_var world (country_var df))"
    and "iso_a3 w \<in> set (map inde (country_var df))"
  shows "\<exists>row\<in>set (country_var df). inde row = iso_a3 w \<and> v = fillna_0 (Some row)"
proof -
  from assms(2) obtain row where "find (\<lambda>r. inde r = iso_a3 w) (country_var df) = Some row"
    by (cases "find (\<lambda>r. inde r = iso_a3 w) (country_var df)") (auto simp: find_None_iff)
  moreover from this have "row \<in> set (country_var df)" "inde row = iso_a3 w"
    by (auto simp: find_Some_iff)
  ultimately show ?thesis using assms(1) by (auto simp: world_var_unique)
qed

text \<open>The value of a selector's column on the map, for any polygon.\<close>

lemma world_var_value:
  assumes "(w, v) \<in> set (world_var world (country_var df))"
  shows "column_2 (dep_var_2 (selector_opts i)) v = aggregate i (filter (\<lambda>r. ISO r = Some (iso_a3 w)) df)"
proof (cases "iso_a3 w \<in> set (map inde (country_var df))")
  case True
  from world_var_present [OF assms True] obtain row
    where row: "row \<in> set (country_var df)" "inde row = iso_a3 w" "v = fillna_0 (Some row)"
    by blast
  then show ?thesis
    using country_var_row_of [OF row(1), of i] by (simp add: column_2_fillna_0_Some)
next
  case False
  then have "filter (\<lambda>r. ISO r = Some (iso_a3 w)) df = []"
    by (auto simp: set_inde_country_var filter_empty_conv simp del: set_map)
  moreover have "aggregate i [] = 0"
    by (cases i)
      (simp_all add: aggregate_def sum_skipna_def count_notna_def List.map_filter_simps int64_def)
  moreover from world_var_absent [OF assms False] have "v = fillna_0 None" .
  ultimately show ?thesis by (simp add: column_2_fillna_0_None)
qed

section \<open>Facts about the example inputs\<close>

lemma deref_example_state_0: "deref (example_state df gdp) 0 = DisasterFrame df"
  by (simp add: deref_def example_state_def)

lemma deref_example_state_1: "deref (example_state df gdp) (Suc 0) = GdpFrame gdp"
  by (simp add: deref_def example_state_def)


lemma year_jan_1: "year (jan_1 y) = y"
  by (simp add: jan_1_def)

lemma ex_cv: "map TD_2 (country_var_of (jan_1 2000) (jan_1 2000) example_df) = [7, 0, 10]"
  by (simp add: country_var_of_def country_var_def restricted_df_def groupby_ISO_def example_df_def
      event_def jan_1_def List.map_filter_simps aggregate_def sum_skipna_def int64_def)

lemma descending_iff_sorted_rev: "descending xs \<longleftrightarrow> sorted (rev xs)"
proof (induction xs rule: descending.induct)
  case (1 x y ys)
  then show ?case by (auto simp: sorted_append intro: order_trans)
qed simp_all

lemma strictly_descending_iff: "strictly_descending xs \<longleftrightarrow> sorted (rev xs) \<and> distinct xs"
proof (induction xs rule: strictly_descending.induct)
  case (1 x y ys)
  then show ?case by (fastforce simp: sorted_append)
qed simp_all

lemma descending_take: "descending xs \<Longrightarrow> descending (take n xs)"
  by (simp add: descending_iff_sorted_rev rev_take sorted_wrt_drop)

lemma set_sort_values_desc: "set (sort_values_desc ties col rows) = set rows"
proof -
  have "set (map snd (enumerate 0 rows)) = set rows"
    by simp
  then show ?thesis
    by (simp add: sort_values_desc_def del: map_snd_enumerate)
qed

lemma image_mset_snd_enumerate: "image_mset snd (mset (enumerate n rows)) = mset rows"
proof -
  have "image_mset snd (mset (enumerate n rows)) = mset (map snd (enumerate n rows))"
    by (simp only: mset_map)
  then show ?thesis
    by (simp only: map_snd_enumerate)
qed

lemma length_sort_values_desc: "length (sort_values_desc ties col rows) = length rows"
  by (simp add: sort_values_desc_def)

lemma sorted_map_fst:
  fixes f :: "'a \<Rightarrow> int \<times> nat"
  assumes "sorted (map f xs)"
  shows "sorted (map (\<lambda>x. fst (f x)) xs)"
proof -
  from assms have "sorted_wrt (\<lambda>x y. f x \<le> f y) xs"
    by (simp add: sorted_map)
  then have "sorted_wrt (\<lambda>x y. fst (f x) \<le> fst (f y)) xs"
    by (rule sorted_wrt_mono_rel [rotated]) (auto simp: less_eq_prod_def)
  then show ?thesis
    by (simp add: sorted_map)
qed

text \<open>The keys of the sorted table, whatever the order of equal keys: the keys of the
  table in descending order.\<close>

lemma map_sort_values_desc: "map col (sort_values_desc ties col rows) = rev (sort (map col rows))"
proof -
  let ?key = "\<lambda>p. (col (snd p), ties (map col rows) (fst p))"
  let ?L = "sort_key ?key (rev (enumerate 0 rows))"
  have "sorted (map ?key ?L)"
    by (rule sorted_sort_key)
  then have "sorted (map (\<lambda>p. fst (?key p)) ?L)"
    by (rule sorted_map_fst)
  then have sorted: "sorted (map (\<lambda>p. col (snd p)) ?L)"
    by simp
  have "mset (map (\<lambda>p. col (snd p)) ?L) = image_mset col (image_mset snd (mset (enumerate 0 rows)))"
    by (simp add: multiset.map_comp comp_def)
  then have "mset (map (\<lambda>p. col (snd p)) ?L) = mset (map col rows)"
    by (simp only: image_mset_snd_enumerate mset_map)
  from properties_for_sort [OF this sorted]
  have "sort (map col rows) = map (\<lambda>p. col (snd p)) ?L" .
  then show ?thesis
    by (simp add: sort_values_desc_def rev_map comp_def)
qed

lemma descending_sort_values_desc: "descending (map col (sort_values_desc ties col rows))"
  by (simp add: map_sort_values_desc descending_iff_sorted_rev)

lemma distinct_sort_values_desc:
  "distinct (map col (sort_values_desc ties col rows)) = distinct (map col rows)"
  by (simp add: map_sort_values_desc)

lemma distinct_rows_sort_values_desc:
  "distinct (sort_values_desc ties col rows) = distinct rows"
proof -
  have "mset (sort_values_desc ties col rows) = image_mset snd (mset (enumerate 0 rows))"
    by (simp add: sort_values_desc_def)
  then have "mset (sort_values_desc ties col rows) = mset rows"
    by (simp only: image_mset_snd_enumerate)
  then show ?thesis
    by (rule mset_eq_imp_distinct_iff)
qed

lemma map_snd_bar_points:
  "map snd (bar_points ties v cv) =
     take 10 (rev (sort (map (column_2 (dep_var_2 (selector_opts v))) cv)))"
  by (simp add: bar_points_def bar_rows_def comp_def take_map [symmetric] map_sort_values_desc
      del: take_map) 

lemma descending_bar_points: "descending (map snd (bar_points ties v cv))"
proof -
  have "descending (rev (sort (map (column_2 (dep_var_2 (selector_opts v))) cv)))"
    by (simp add: descending_iff_sorted_rev)
  then show ?thesis
    by (simp only: map_snd_bar_points descending_take)
qed

lemma length_bar_points: "length (bar_points ties v cv) \<le> 10"
  by (simp add: bar_points_def bar_rows_def)

lemma strictly_descending_bar_points_iff:
  "strictly_descending (map snd (bar_points ties v cv)) \<longleftrightarrow> distinct (map snd (bar_points ties v cv))"
  using descending_bar_points [of ties v cv]
  by (simp add: strictly_descending_iff descending_iff_sorted_rev)

lemma strictly_descending_bar_points:
  assumes "distinct (map (column_2 (dep_var_2 (selector_opts v))) cv)"
  shows "strictly_descending (map snd (bar_points ties v cv))"
proof -
  from assms have "distinct (map snd (bar_points ties v cv))"
    by (simp add: map_snd_bar_points distinct_take)
  then show ?thesis
    by (simp only: strictly_descending_bar_points_iff)
qed

lemma set_bar_rows: "set (bar_rows ties v cv) \<subseteq> set cv"
proof -
  have "set (bar_rows ties v cv)
        \<subseteq> set (sort_values_desc ties (column_2 (dep_var_2 (selector_opts v))) cv)"
    unfolding bar_rows_def by (rule set_take_subset)
  then show ?thesis by (simp only: set_sort_values_desc)
qed

lemma distinct_bar_rows: "distinct cv \<Longrightarrow> distinct (bar_rows ties v cv)"
  by (simp add: bar_rows_def distinct_take distinct_rows_sort_values_desc)

text \<open>No country left out of the chart has a larger value than a country in it.\<close>

lemma bar_rows_top:
  assumes "r \<in> set cv" and "r \<notin> set (bar_rows ties v cv)" and "p \<in> set (bar_rows ties v cv)"
  shows "column_2 (dep_var_2 (selector_opts v)) r \<le> column_2 (dep_var_2 (selector_opts v)) p"
proof -
  let ?col = "column_2 (dep_var_2 (selector_opts v))"
  let ?xs = "sort_values_desc ties ?col cv"
  have "sorted (rev (map ?col (take 10 ?xs @ drop 10 ?xs)))"
    using descending_sort_values_desc [of ?col ties cv] by (simp add: descending_iff_sorted_rev)
  then have le: "\<forall>a\<in>set (drop 10 ?xs). \<forall>b\<in>set (take 10 ?xs). ?col a \<le> ?col b"
    by (simp add: sorted_append rev_map del: append_take_drop_id) 
  have "set ?xs = set (take 10 ?xs) \<union> set (drop 10 ?xs)"
    by (metis append_take_drop_id set_append)
  with assms(1,2) have "r \<in> set (drop 10 ?xs)"
    by (simp add: bar_rows_def set_sort_values_desc)
  with le assms(3) show ?thesis
    by (simp add: bar_rows_def)
qed

lemma map_count_inde:
  "map count_inde (country_count_frame (country_count df)) = map fst (groupby_ISO df)"
  by (simp add: country_count_frame_def country_count_def comp_def case_prod_beta)

lemma map_fst_country_count: "map fst (country_count df) = map fst (groupby_ISO df)"
  by (simp add: country_count_def comp_def case_prod_beta)

lemma distinct_count_inde: "distinct (map count_inde (country_count_frame (country_count df)))"
  by (simp only: map_count_inde distinct_keys_groupby_ISO)

lemma country_count_row_of:
  "row \<in> set (country_count_frame (country_count df)) \<Longrightarrow>
   count_Year_2 row = count_notna Year (filter (\<lambda>r. ISO r = Some (count_inde row)) df)"
  by (auto simp: country_count_frame_def country_count_def dest: groupby_ISO_group)

lemma world_count_unique:
  "world_count world (country_count_frame (country_count df)) =
     map (\<lambda>w. (w, fillna_0_count
                    (find (\<lambda>r. count_inde r = iso_a3 w) (country_count_frame (country_count df)))))
       world"
  by (simp add: world_count_def merge_left_unique_key [OF distinct_count_inde])

lemma map_fst_world_count:
  "map fst (world_count world (country_count_frame (country_count df))) = world"
  by (simp add: world_count_unique comp_def)

lemma world_count_absent:
  assumes "(w, v) \<in> set (world_count world (country_count_frame (country_count df)))"
    and "iso_a3 w \<notin> set (map fst (country_count df))"
  shows "v = \<lparr>count_inde = Num 0, count_Year_2 = 0\<rparr>"
proof -
  from assms(2) have "iso_a3 w \<notin> set (map count_inde (country_count_frame (country_count df)))"
    by (simp add: map_count_inde map_fst_country_count del: set_map)
  then have "find (\<lambda>r. count_inde r = iso_a3 w) (country_count_frame (country_count df)) = None"
    by (fastforce simp: find_None_iff image_iff)
  with assms(1) show ?thesis by (auto simp: world_count_unique fillna_0_count_def)
qed

lemma world_count_present:
  assumes "(w, v) \<in> set (world_count world (country_count_frame (country_count df)))"
    and "iso_a3 w \<in> set (map fst (country_count df))"
  shows "\<exists>row\<in>set (country_count_frame (country_count df)).
           count_inde row = iso_a3 w \<and> v = fillna_0_count (Some row)"
proof -
  let ?cc = "country_count_frame (country_count df)"
  from assms(2) have "iso_a3 w \<in> set (map count_inde ?cc)"
    by (simp add: map_count_inde map_fst_country_count del: set_map)
  then obtain row where "find (\<lambda>r. count_inde r = iso_a3 w) ?cc = Some row"
    by (cases "find (\<lambda>r. count_inde r = iso_a3 w) ?cc") (auto simp: find_None_iff)
  moreover from this have "row \<in> set ?cc" "count_inde row = iso_a3 w"
    by (auto simp: find_Some_iff)
  ultimately show ?thesis using assms(1) by (auto simp: world_count_unique)
qed

lemma world_count_value:
  assumes "(w, v) \<in> set (world_count world (country_count_frame (country_count df)))"
  shows "count_Year_2 v = int (length (filter (\<lambda>r. ISO r = Some (iso_a3 w) \<and> Year r \<noteq> None) df))"
proof (cases "iso_a3 w \<in> set (map fst (country_count df))")
  case True
  from world_count_present [OF assms True] obtain row
    where row: "row \<in> set (country_count_frame (country_count df))" "count_inde row = iso_a3 w"
      "v = fillna_0_count (Some row)"
    by blast
  then show ?thesis
    using country_count_row_of [OF row(1)] by (simp add: fillna_0_count_def count_notna_def)
next
  case False
  then have "iso_a3 w \<notin> {c. \<exists>r\<in>set df. ISO r = Some c}"
    by (simp add: map_fst_country_count set_keys_groupby_ISO del: set_map)
  then have "\<forall>r\<in>set df. ISO r \<noteq> Some (iso_a3 w)"
    by blast
  then have "filter (\<lambda>r. ISO r = Some (iso_a3 w) \<and> Year r \<noteq> None) df = []"
    by (simp add: filter_empty_conv)
  with world_count_absent [OF assms False] show ?thesis by simp
qed

lemma naturalearth_example_state: "naturalearth_lowres (example_state df gdp) = example_world"
  by (simp add: example_state_def)

lemma quicksort_ties_example_state: "quicksort_ties (example_state df gdp) = (\<lambda>keys i. 0)"
  by (simp add: example_state_def)

lemma world_count_nan_year:
  "world_count example_world (country_count_frame (country_count nan_year_df)) =
     [(\<lparr>iso_a3 = ''USA'', name = ''United States of America''\<rparr>, \<lparr>count_inde = Str ''USA'', count_Year_2 = 0\<rparr>),
      (\<lparr>iso_a3 = ''FRA'', name = ''France''\<rparr>, \<lparr>count_inde = Num 0, count_Year_2 = 0\<rparr>)]"
  by (simp add: world_count_def merge_left_def country_count_frame_def country_count_def
      groupby_ISO_def nan_year_df_def event_def example_world_def List.map_filter_simps
      count_notna_def fillna_0_count_def)

lemma bar_points_tie:
  "bar_points (\<lambda>keys i. 0) Deaths (country_var_of (jan_1 2000) (jan_1 2000) tie_df)
     = [(''CHN'', 5), (''USA'', 5)]"
  by (simp add: bar_points_def bar_rows_def sort_values_desc_def country_var_of_def country_var_def
      restricted_df_def groupby_ISO_def tie_df_def event_def jan_1_def List.map_filter_simps
      aggregate_def sum_skipna_def count_notna_def int64_def)

lemma set_merge_left_row:
  "set (case filter P right of [] \<Rightarrow> [(l, None)] | ms \<Rightarrow> map (\<lambda>r. (l, Some r)) ms) =
     (if \<exists>r\<in>set right. P r then {(l, Some r) | r. r \<in> set right \<and> P r} else {(l, None)})"
proof (cases "filter P right")
  case Nil
  then show ?thesis by (auto simp: filter_empty_conv)
next
  case (Cons m ms)
  then have "(case filter P right of [] \<Rightarrow> [(l, None)] | ms \<Rightarrow> map (\<lambda>r. (l, Some r)) ms)
             = map (\<lambda>r. (l, Some r)) (filter P right)"
    by simp
  moreover from Cons have "\<exists>r\<in>set right. P r"
    by (metis filter_empty_conv list.distinct(1))
  ultimately show ?thesis
    by auto
qed

lemma set_merge_left:
  "set (merge_left lk rk left right) =
     {(l, Some r) | l r. l \<in> set left \<and> r \<in> set right \<and> rk r = lk l}
     \<union> {(l, None) | l. l \<in> set left \<and> (\<forall>r\<in>set right. rk r \<noteq> lk l)}"
  unfolding merge_left_def set_concat set_map image_image set_merge_left_row
  by (auto split: if_splits)

lemma new_df_alt:
  "new_df nd gdp =
     map (\<lambda>j. (joined_Total_Deaths j, joined_GDP_per_capita j))
       (filter (\<lambda>j. (case joined_Total_Deaths j of None \<Rightarrow> False | Some d \<Rightarrow> d > 5000)
                    \<and> joined_Total_Deaths j \<noteq> None \<and> joined_GDP_per_capita j \<noteq> None)
          (joined_df nd gdp))"
  by (simp add: new_df_def dropna_def major_df_def filter_map comp_def)

lemma new_df_scatter: "new_df scatter_df scatter_gdp = [(Some 6000, Some 500)]"
  by (simp add: new_df_def dropna_def major_df_def joined_df_def merge_left_def scatter_df_def
      scatter_gdp_def event_def joined_Total_Deaths_def joined_GDP_per_capita_def)

lemma new_df_empty: "new_df [] gdp = []"
  by (simp add: new_df_def dropna_def major_df_def joined_df_def merge_left_def)

lemma country_count_empty: "country_count [] = []"
  by (simp add: country_count_def groupby_ISO_def List.map_filter_simps)

lemma country_var_empty: "country_var [] = []"
  by (simp add: country_var_def groupby_ISO_def List.map_filter_simps)

lemma restricted_df_empty:
  "(\<forall>r\<in>set df. \<forall>y. Year r = Some y \<longrightarrow> \<not> (a \<le> y \<and> y \<le> b)) \<Longrightarrow> restricted_df a b df = []"
  by (auto simp: restricted_df_def filter_empty_conv split: option.splits)

lemma world_var_empty: "world_var world [] = map (\<lambda>w. (w, fillna_0 None)) world"
  by (simp add: world_var_def merge_left_def comp_def)

section \<open>Facts about the entry points\<close>


lemma major_disaster_distribution_snd:
  "snd (major_disaster_distribution s a) =
     (if \<not> isinstance_DataFrame (deref s a) then Inl AssertionError
      else case deref s a of
             DisasterFrame nd \<Rightarrow>
               Inr \<lparr>count_data = world_count (naturalearth_lowres s) (country_count_frame (country_count nd)),
                    count_vdims = [(''Year_2'', ''# disasters''), (''name'', ''Country'')]\<rparr>
           | _ \<Rightarrow> Inl KeyError)"
proof (cases "deref s a")
  case (DisasterFrame nd)
  then show ?thesis
    using major_disaster_distribution_returns [OF DisasterFrame] by simp
qed (simp_all add: major_disaster_distribution_def)

lemma major_disaster_map_raises:
  assumes "deref s a = DisasterFrame nd"
  shows "snd (major_disaster_map s a start_time end_time None) = Inl KeyError"
proof -
  let ?s2 = "alloc (WorldFrame (naturalearth_lowres s))
               (alloc (DisasterFrame (restricted_df (year start_time) (year end_time) nd)) s)"
  let ?cv = "country_var (restricted_df (year start_time) (year end_time) nd)"
  have "deref (setitem_inde (length (heap ?s2)) (alloc (CountryVarFrame False ?cv) ?s2)) (length (heap ?s2))
          = CountryVarFrame True ?cv"
    by (rule setitem_inde_CountryVarFrame) (rule deref_alloc_new)
  then show ?thesis
    using assms
    by (simp add: major_disaster_map_def Let_def naturalearth_alloc)
qed

lemma major_disaster_map_snd:
  "snd (major_disaster_map s a start_time end_time vis_type) =
     (case deref s a of
        DisasterFrame nd \<Rightarrow>
          (case vis_type of
             None \<Rightarrow> Inl KeyError
           | Some v \<Rightarrow>
               Inr \<lparr>ax_data = world_var (naturalearth_lowres s) (country_var_of start_time end_time nd),
                    ax_color_index = dep_var_2 (selector_opts v),
                    bar_data = bar_points (quicksort_ties s) v
                                 (country_var_of start_time end_time nd)\<rparr>)
      | _ \<Rightarrow> Inl KeyError)"
proof (cases "deref s a")
  case (DisasterFrame nd)
  then show ?thesis
    using major_disaster_map_returns [OF DisasterFrame] major_disaster_map_raises [OF DisasterFrame]
    by (simp split: option.splits)
qed (simp_all add: major_disaster_map_def)


lemma death_vs_gdp_unchanged_on_error:
  "snd (death_vs_gdp s a b) = Inl e \<Longrightarrow> fst (death_vs_gdp s a b) = s"
  by (auto simp: death_vs_gdp_def Let_def split: obj.splits if_splits)


lemma deref_in_heap: "deref s a \<noteq> NotAFrame \<Longrightarrow> a < length (heap s)"
  by (simp add: deref_def split: if_splits)

lemma heap_setitem_inde_prefix:
  "n \<le> a \<Longrightarrow> take n (heap (setitem_inde a s)) = take n (heap s)"
  by (simp add: setitem_inde_def)

lemma death_vs_gdp_prefix:
  "take (length (heap s)) (heap (fst (death_vs_gdp s a b))) = heap s"
  by (simp add: death_vs_gdp_def Let_def heap_alloc split: obj.splits)

lemma major_disaster_distribution_prefix:
  "take (length (heap s)) (heap (fst (major_disaster_distribution s a))) = heap s"
  by (simp add: major_disaster_distribution_def Let_def heap_alloc heap_setitem_inde_prefix
      length_heap_setitem_inde split: obj.splits bool.splits)

lemma major_disaster_map_prefix:
  "take (length (heap s)) (heap (fst (major_disaster_map s a start_time end_time vis_type))) = heap s"
  by (simp add: major_disaster_map_def Let_def heap_alloc heap_setitem_inde_prefix
      length_heap_setitem_inde split: obj.splits bool.splits option.splits)

lemma major_disaster_distribution_deref_self:
  "deref (fst (major_disaster_distribution s a)) a = deref s a"
proof (cases "a < length (heap s)")
  case True
  then show ?thesis by (rule major_disaster_distribution_frame)
next
  case False
  then have "deref s a = NotAFrame" by (simp add: deref_def)
  then have "fst (major_disaster_distribution s a) = s"
    by (simp add: major_disaster_distribution_def)
  then show ?thesis by simp
qed

lemma major_disaster_map_deref_self:
  "deref (fst (major_disaster_map s a start_time end_time vis_type)) a = deref s a"
proof (cases "a < length (heap s)")
  case True
  then show ?thesis by (rule major_disaster_map_frame)
next
  case False
  then have "deref s a = NotAFrame" by (simp add: deref_def)
  then have "fst (major_disaster_map s a start_time end_time vis_type) = s"
    by (simp add: major_disaster_map_def)
  then show ?thesis by simp
qed

lemma death_vs_gdp_succeeds:
  "snd (death_vs_gdp s a b) = Inr u \<Longrightarrow>
   \<exists>nd gdp. deref s a = DisasterFrame nd \<and> deref s b = GdpFrame gdp"
  by (auto simp: death_vs_gdp_def Let_def split: obj.splits if_splits)

lemma death_vs_gdp_figures_on_error:
  "snd (death_vs_gdp s a b) = Inl e \<Longrightarrow> figures (fst (death_vs_gdp s a b)) = figures s"
  by (simp add: death_vs_gdp_unchanged_on_error)

lemma death_vs_gdp_twice:
  "snd (death_vs_gdp (fst (death_vs_gdp s a b)) a b) = snd (death_vs_gdp s a b)
   \<and> drop (length (figures (fst (death_vs_gdp s a b))))
        (figures (fst (death_vs_gdp (fst (death_vs_gdp s a b)) a b)))
     = drop (length (figures s)) (figures (fst (death_vs_gdp s a b)))"
proof (cases "snd (death_vs_gdp s a b)")
  case (Inl e)
  then have "fst (death_vs_gdp s a b) = s"
    by (rule death_vs_gdp_unchanged_on_error)
  then show ?thesis by simp
next
  case (Inr u)
  then obtain nd gdp where a: "deref s a = DisasterFrame nd" and b: "deref s b = GdpFrame gdp"
    using death_vs_gdp_succeeds by blast
  let ?s1 = "fst (death_vs_gdp s a b)"
  from a b have "a < length (heap s)" "b < length (heap s)"
    by (simp_all add: deref_in_heap)
  then have a1: "deref ?s1 a = DisasterFrame nd" and b1: "deref ?s1 b = GdpFrame gdp"
    using a b by (simp_all add: death_vs_gdp_frame)
  from death_vs_gdp_returns [OF a b] death_vs_gdp_returns [OF a1 b1]
  show ?thesis by simp
qed

lemma aggregate_Sum:
  "group_op (selector_opts v) = Sum \<Longrightarrow>
   aggregate v g = sum_skipna (column (dep_var (selector_opts v))) g"
  by (simp add: aggregate_def)

lemma sum_all_missing:
  "\<forall>r\<in>set g. col r = None \<Longrightarrow> (\<Sum>r\<leftarrow>g. case col r of None \<Rightarrow> 0 | Some x \<Rightarrow> x) = (0::int)"
  by (induction g) simp_all

lemma bar_points_value:
  assumes "p \<in> set (bar_points ties v (country_var df))"
  shows "snd p = aggregate v (filter (\<lambda>r. ISO r = Some (fst p)) df)"
proof -
  from assms obtain q where q: "q \<in> set (bar_rows ties v (country_var df))"
    and p: "p = (inde q, column_2 (dep_var_2 (selector_opts v)) q)"
    by (auto simp: bar_points_def)
  from q set_bar_rows have "q \<in> set (country_var df)" by blast
  from country_var_row_of [OF this, of v] p show ?thesis by simp
qed

lemma bar_points_example:
  "bar_points (\<lambda>keys i. 0) Deaths (country_var_of (jan_1 2000) (jan_1 2000) example_df)
     = [(''USA'', 10), (''CHN'', 7), (''FRA'', 0)]"
  by (simp add: bar_points_def bar_rows_def sort_values_desc_def country_var_of_def country_var_def
      restricted_df_def groupby_ISO_def example_df_def event_def jan_1_def List.map_filter_simps
      aggregate_def sum_skipna_def count_notna_def int64_def)

section \<open>Facts about the bars, the matched polygons and the examples\<close>

lemma mset_sort_values_desc: "mset (sort_values_desc ties col rows) = mset rows"
proof -
  have "mset (sort_values_desc ties col rows) = image_mset snd (mset (enumerate 0 rows))"
    by (simp add: sort_values_desc_def)
  then show ?thesis
    by (simp only: image_mset_snd_enumerate)
qed

lemma distinct_map_sort_values_desc:
  "distinct (map f (sort_values_desc ties col rows)) = distinct (map f rows)"
proof -
  have "mset (map f (sort_values_desc ties col rows)) = mset (map f rows)"
    by (simp add: mset_sort_values_desc)
  then show ?thesis
    by (rule mset_eq_imp_distinct_iff)
qed

lemma distinct_fst_bar_points:
  "distinct (map inde cv) \<Longrightarrow> distinct (map fst (bar_points ties v cv))"
proof -
  assume "distinct (map inde cv)"
  then have "distinct (take 10 (map inde (sort_values_desc ties (column_2 (dep_var_2 (selector_opts v))) cv)))"
    by (simp add: distinct_map_sort_values_desc distinct_take del: take_map)
  then show ?thesis
    by (simp add: bar_points_def bar_rows_def comp_def take_map)
qed

lemma set_bar_points:
  "set (bar_points ties v cv) \<subseteq> (\<lambda>r. (inde r, column_2 (dep_var_2 (selector_opts v)) r)) ` set cv"
  using set_bar_rows [of ties v cv] by (auto simp: bar_points_def)

lemma length_bar_points_eq: "length (bar_points ties v cv) = min 10 (length cv)"
  by (simp add: bar_points_def bar_rows_def length_sort_values_desc min.commute)

text \<open>A matched polygon carries the row of the per-country table with its code.\<close>

lemma world_var_matched:
  assumes "(w, v) \<in> set (world_var world (country_var df))"
    and "row \<in> set (country_var df)" and "inde row = iso_a3 w"
  shows "v = fillna_0 (Some row)"
proof -
  from assms(2,3) have "iso_a3 w \<in> set (map inde (country_var df))"
    by force
  from world_var_present [OF assms(1) this] obtain row'
    where row': "row' \<in> set (country_var df)" "inde row' = iso_a3 w" "v = fillna_0 (Some row')"
    by blast
  have "inj_on inde (set (country_var df))"
    using distinct_inde_country_var [of df] by (simp add: distinct_map)
  with row'(1,2) assms(2,3) have "row' = row"
    by (simp add: inj_on_def)
  with row'(3) show ?thesis by simp
qed

lemma world_count_matched:
  assumes "(w, v) \<in> set (world_count world (country_count_frame (country_count df)))"
    and "(iso_a3 w, n) \<in> set (country_count df)"
  shows "v = \<lparr>count_inde = Str (iso_a3 w), count_Year_2 = n\<rparr>"
proof -
  from assms(2) have "iso_a3 w \<in> set (map fst (country_count df))"
    by force
  from world_count_present [OF assms(1) this] obtain row
    where row: "row \<in> set (country_count_frame (country_count df))" "count_inde row = iso_a3 w"
      "v = fillna_0_count (Some row)"
    by blast
  from row(1) obtain c m where cm: "(c, m) \<in> set (country_count df)"
    and r: "row = \<lparr>count_inde = c, count_Year_2 = m\<rparr>"
    by (auto simp: country_count_frame_def)
  have "distinct (map fst (country_count df))"
    by (simp only: map_fst_country_count distinct_keys_groupby_ISO)
  with cm assms(2) row(2) r have "m = n"
    by (auto dest: eq_key_imp_eq_value)
  with row(2,3) r show ?thesis
    by (simp add: fillna_0_count_def)
qed

lemma bar_data_of_example:
  assumes "deref s natural_disaster_df = DisasterFrame df"
  shows "bar_data_of (major_disaster_map s natural_disaster_df start_time end_time (Some v)) =
           bar_points (quicksort_ties s) v (country_var_of start_time end_time df)"
    and "ax_data_of (major_disaster_map s natural_disaster_df start_time end_time (Some v)) =
           world_var (naturalearth_lowres s) (country_var_of start_time end_time df)"
  using major_disaster_map_returns [OF assms, of start_time end_time v]
  by (simp_all add: bar_data_of_def ax_data_of_def)

lemma sum_abs_example: "sum_abs Total_Deaths example_df \<le> 2 ^ 53"
  by (simp add: sum_abs_def example_df_def event_def)

lemma world_var_example:
  "world_var example_world (country_var_of (jan_1 2000) (jan_1 2000) example_df) =
     [(\<lparr>iso_a3 = ''USA'', name = ''United States of America''\<rparr>,
       \<lparr>inde = Str ''USA'', Year_2 = 2, TD_2 = 10, num_inj = 0, num_aff = 0, num_homeless = 0,
        num_recon_costs = 0, num_damages = 0\<rparr>),
      (\<lparr>iso_a3 = ''FRA'', name = ''France''\<rparr>,
       \<lparr>inde = Str ''FRA'', Year_2 = 1, TD_2 = 0, num_inj = 0, num_aff = 0, num_homeless = 0,
        num_recon_costs = 0, num_damages = 0\<rparr>)]"
  by (simp add: world_var_def merge_left_def fillna_0_def example_world_def country_var_of_def
      country_var_def restricted_df_def groupby_ISO_def example_df_def event_def jan_1_def
      List.map_filter_simps aggregate_def sum_skipna_def count_notna_def int64_def)

lemma world_var_tie:
  "world_var example_world (country_var_of (jan_1 2000) (jan_1 2000) tie_df) =
     [(\<lparr>iso_a3 = ''USA'', name = ''United States of America''\<rparr>,
       \<lparr>inde = Str ''USA'', Year_2 = 1, TD_2 = 5, num_inj = 0, num_aff = 0, num_homeless = 0,
        num_recon_costs = 0, num_damages = 0\<rparr>),
      (\<lparr>iso_a3 = ''FRA'', name = ''France''\<rparr>,
       \<lparr>inde = Num 0, Year_2 = 0, TD_2 = 0, num_inj = 0, num_aff = 0, num_homeless = 0,
        num_recon_costs = 0, num_damages = 0\<rparr>)]"
  by (simp add: world_var_def merge_left_def fillna_0_def example_world_def country_var_of_def
      country_var_def restricted_df_def groupby_ISO_def tie_df_def event_def jan_1_def
      List.map_filter_simps aggregate_def sum_skipna_def count_notna_def int64_def)

lemma world_count_tie:
  "world_count example_world (country_count_frame (country_count tie_df)) =
     [(\<lparr>iso_a3 = ''USA'', name = ''United States of America''\<rparr>, \<lparr>count_inde = Str ''USA'', count_Year_2 = 1\<rparr>),
      (\<lparr>iso_a3 = ''FRA'', name = ''France''\<rparr>, \<lparr>count_inde = Num 0, count_Year_2 = 0\<rparr>)]"
  by (simp add: world_count_def merge_left_def country_count_frame_def country_count_def
      groupby_ISO_def tie_df_def event_def example_world_def List.map_filter_simps
      count_notna_def fillna_0_count_def)




section \<open>The claims\<close>

text \<open>
  C1. In \<^verbatim>\<open>map_distribution_cases\<close>, with the date range [2000, 2000] and the selector
  \<^verbatim>\<open># Deaths\<close>: the year filter keeps a row iff its year lies between the two bounds,
  both included; the per-country table of the callback has one row per country code of
  the rows of the year 2000; and the \<^verbatim>\<open># Deaths\<close> value of a country, in that table, on
  its polygons of the map and on its bar, is the sum of \<^verbatim>\<open>Total Deaths\<close> (missing cells
  skipped) over exactly the rows of the year 2000 with that code. The sum is meant as a
  number: the equation is stated for countries whose deaths of that year add up to
  \<open>2 ^ 53\<close> at most in magnitude, where the arithmetic of the code is exact.
\<close>

theorem deaths_per_country_in_2000:
  assumes "deref s natural_disaster_df = DisasterFrame df"
    and "year start_time = 2000" and "year end_time = 2000"
  shows "set (restricted_df a b df) = {r \<in> set df. \<exists>y. Year r = Some y \<and> a \<le> y \<and> y \<le> b}
    \<and> set (map inde (country_var_of start_time end_time df)) =
        {c. \<exists>r\<in>set df. Year r = Some 2000 \<and> ISO r = Some c}
    \<and> distinct (map inde (country_var_of start_time end_time df))
    \<and> (\<forall>row\<in>set (country_var_of start_time end_time df).
          sum_abs Total_Deaths (filter (\<lambda>r. Year r = Some 2000 \<and> ISO r = Some (inde row)) df) \<le> 2 ^ 53 \<longrightarrow>
          column_2 (dep_var_2 (selector_opts Deaths)) row =
            (\<Sum>r\<leftarrow>filter (\<lambda>r. Year r = Some 2000 \<and> ISO r = Some (inde row)) df.
               case Total_Deaths r of None \<Rightarrow> 0 | Some d \<Rightarrow> d))
    \<and> (\<exists>out. snd (major_disaster_map s natural_disaster_df start_time end_time (Some Deaths)) = Inr out
          \<and> ax_color_index out = dep_var_2 (selector_opts Deaths)
          \<and> (\<forall>(w, v)\<in>set (ax_data out).
                sum_abs Total_Deaths (filter (\<lambda>r. Year r = Some 2000 \<and> ISO r = Some (iso_a3 w)) df) \<le> 2 ^ 53 \<longrightarrow>
                column_2 (ax_color_index out) v =
                  (\<Sum>r\<leftarrow>filter (\<lambda>r. Year r = Some 2000 \<and> ISO r = Some (iso_a3 w)) df.
                     case Total_Deaths r of None \<Rightarrow> 0 | Some d \<Rightarrow> d))
          \<and> (\<forall>p\<in>set (bar_data out).
                sum_abs Total_Deaths (filter (\<lambda>r. Year r = Some 2000 \<and> ISO r = Some (fst p)) df) \<le> 2 ^ 53 \<longrightarrow>
                snd p =
                  (\<Sum>r\<leftarrow>filter (\<lambda>r. Year r = Some 2000 \<and> ISO r = Some (fst p)) df.
                     case Total_Deaths r of None \<Rightarrow> 0 | Some d \<Rightarrow> d)))"
proof -
  let ?R = "restricted_df 2000 2000 df"
  let ?cv = "country_var_of start_time end_time df"
  let ?rows = "\<lambda>c. filter (\<lambda>r. Year r = Some 2000 \<and> ISO r = Some c) df"
  let ?sum = "\<lambda>c. \<Sum>r\<leftarrow>?rows c. case Total_Deaths r of None \<Rightarrow> 0 | Some d \<Rightarrow> d"
  let ?out = "\<lparr>ax_data = world_var (naturalearth_lowres s) ?cv,
               ax_color_index = dep_var_2 (selector_opts Deaths),
               bar_data = bar_points (quicksort_ties s) Deaths ?cv\<rparr>"
  have cv: "?cv = country_var ?R"
    using assms(2,3) by (simp add: country_var_of_def)
  have in_R: "r \<in> set ?R \<longleftrightarrow> r \<in> set df \<and> Year r = Some 2000" for r
    by (auto simp: set_restricted_df)
  have keys: "set (map inde ?cv) = {c. \<exists>r\<in>set df. Year r = Some 2000 \<and> ISO r = Some c}"
    unfolding cv set_inde_country_var using in_R by blast
  have dist: "distinct (map inde ?cv)"
    unfolding cv by (rule distinct_inde_country_var)
  have group: "filter (\<lambda>r. ISO r = Some c) ?R = ?rows c" for c
    by (simp add: filter_restricted_df year_2000_iff)
  have agg: "aggregate Deaths (filter (\<lambda>r. ISO r = Some c) ?R) = ?sum c"
    if "sum_abs Total_Deaths (?rows c) \<le> 2 ^ 53" for c
    using sum_skipna_exact(1) [OF that] by (simp add: aggregate_def group)
  have val: "column_2 (dep_var_2 (selector_opts Deaths)) row = ?sum (inde row)"
    if "row \<in> set ?cv" and "sum_abs Total_Deaths (?rows (inde row)) \<le> 2 ^ 53" for row
    using that(1) country_var_row_of [of row ?R Deaths] agg [OF that(2)] by (simp add: cv)
  have ret: "snd (major_disaster_map s natural_disaster_df start_time end_time (Some Deaths)) = Inr ?out"
    by (rule major_disaster_map_returns [OF assms(1)])
  have on_map: "column_2 (ax_color_index ?out) v = ?sum (iso_a3 w)"
    if "(w, v) \<in> set (ax_data ?out)" and "sum_abs Total_Deaths (?rows (iso_a3 w)) \<le> 2 ^ 53" for w v
    using that(1) world_var_value [of w v "naturalearth_lowres s" ?R Deaths] agg [OF that(2)]
    by (simp add: cv)
  have on_bar: "snd p = ?sum (fst p)"
    if "p \<in> set (bar_data ?out)" and "sum_abs Total_Deaths (?rows (fst p)) \<le> 2 ^ 53" for p
    using that(1) bar_points_value [of p "quicksort_ties s" Deaths ?R] agg [OF that(2)]
    by (simp add: cv)
  have callback: "\<exists>out. snd (major_disaster_map s natural_disaster_df start_time end_time (Some Deaths)) = Inr out
          \<and> ax_color_index out = dep_var_2 (selector_opts Deaths)
          \<and> (\<forall>(w, v)\<in>set (ax_data out).
                sum_abs Total_Deaths (?rows (iso_a3 w)) \<le> 2 ^ 53 \<longrightarrow>
                column_2 (ax_color_index out) v = ?sum (iso_a3 w))
          \<and> (\<forall>p\<in>set (bar_data out).
                sum_abs Total_Deaths (?rows (fst p)) \<le> 2 ^ 53 \<longrightarrow> snd p = ?sum (fst p))"
  proof (intro exI conjI)
    show "snd (major_disaster_map s natural_disaster_df start_time end_time (Some Deaths)) = Inr ?out"
      by (rule ret)
    show "ax_color_index ?out = dep_var_2 (selector_opts Deaths)"
      by simp
    show "\<forall>(w, v)\<in>set (ax_data ?out).
                sum_abs Total_Deaths (?rows (iso_a3 w)) \<le> 2 ^ 53 \<longrightarrow>
                column_2 (ax_color_index ?out) v = ?sum (iso_a3 w)"
      using on_map by blast
    show "\<forall>p\<in>set (bar_data ?out).
                sum_abs Total_Deaths (?rows (fst p)) \<le> 2 ^ 53 \<longrightarrow> snd p = ?sum (fst p)"
      using on_bar by blast
  qed
  show ?thesis
  proof (intro conjI)
    show "set (restricted_df a b df) = {r \<in> set df. \<exists>y. Year r = Some y \<and> a \<le> y \<and> y \<le> b}"
      by (rule set_restricted_df)
    show "set (map inde ?cv) = {c. \<exists>r\<in>set df. Year r = Some 2000 \<and> ISO r = Some c}"
      by (rule keys)
    show "distinct (map inde ?cv)"
      by (rule dist)
    show "\<forall>row\<in>set ?cv. sum_abs Total_Deaths (?rows (inde row)) \<le> 2 ^ 53 \<longrightarrow>
          column_2 (dep_var_2 (selector_opts Deaths)) row = ?sum (inde row)"
      using val by blast
    show "\<exists>out. snd (major_disaster_map s natural_disaster_df start_time end_time (Some Deaths)) = Inr out
          \<and> ax_color_index out = dep_var_2 (selector_opts Deaths)
          \<and> (\<forall>(w, v)\<in>set (ax_data out).
                sum_abs Total_Deaths (?rows (iso_a3 w)) \<le> 2 ^ 53 \<longrightarrow>
                column_2 (ax_color_index out) v = ?sum (iso_a3 w))
          \<and> (\<forall>p\<in>set (bar_data out).
                sum_abs Total_Deaths (?rows (fst p)) \<le> 2 ^ 53 \<longrightarrow> snd p = ?sum (fst p))"
      by (rule callback)
  qed
qed

theorem deaths_per_country_in_2000_witness:
  "deref (example_state example_df []) 0 = DisasterFrame example_df
   \<and> year (jan_1 2000) = 2000
   \<and> sum_abs Total_Deaths example_df \<le> 2 ^ 53
   \<and> distinct (map inde (country_var_of (jan_1 2000) (jan_1 2000) example_df))
   \<and> map TD_2 (country_var_of (jan_1 2000) (jan_1 2000) example_df) = [7, 0, 10]
   \<and> bar_data_of (major_disaster_map (example_state example_df []) 0 (jan_1 2000) (jan_1 2000)
                     (Some Deaths)) = [(''USA'', 10), (''CHN'', 7), (''FRA'', 0)]"
proof -
  have h1: "deref (example_state example_df []) 0 = DisasterFrame example_df"
    by (rule deref_example_state_0)
  have h2: "year (jan_1 2000) = 2000"
    by (rule year_jan_1)
  from deaths_per_country_in_2000 [OF h1 h2 h2]
  have "distinct (map inde (country_var_of (jan_1 2000) (jan_1 2000) example_df))"
    by blast
  moreover have "bar_data_of (major_disaster_map (example_state example_df []) 0 (jan_1 2000)
                                (jan_1 2000) (Some Deaths)) = [(''USA'', 10), (''CHN'', 7), (''FRA'', 0)]"
    by (simp add: bar_data_of_example(1) [OF h1] quicksort_ties_example_state bar_points_example)
  ultimately show ?thesis
    using h1 h2 ex_cv sum_abs_example by blast
qed

text \<open>
  C2, as amended. For every table, date range and selector, the bar chart of the callback
  shows the first 10 rows of the per-country table sorted by the selected column in
  descending order (the sort decides which of several countries of equal value come
  first): each bar is a country of the table with its value, no country twice, the
  values are the 10 largest of the column (all of them when the table has fewer rows),
  and no country left out has a larger value than a country shown. The plotted values
  never rise. They fall strictly exactly when no two plotted values are equal, which is
  so when no two countries have the same value; otherwise equal values stand side by
  side.
\<close>

theorem bar_chart_top_10_descending:
  assumes "deref s natural_disaster_df = DisasterFrame df"
  shows "\<exists>out. snd (major_disaster_map s natural_disaster_df start_time end_time (Some v)) = Inr out
     \<and> bar_data out =
         map (\<lambda>r. (inde r, column_2 (dep_var_2 (selector_opts v)) r))
           (take 10 (sort_values_desc (quicksort_ties s) (column_2 (dep_var_2 (selector_opts v)))
                       (country_var_of start_time end_time df)))
     \<and> set (bar_data out) \<subseteq>
         (\<lambda>r. (inde r, column_2 (dep_var_2 (selector_opts v)) r)) ` set (country_var_of start_time end_time df)
     \<and> distinct (map fst (bar_data out))
     \<and> map snd (bar_data out) =
         take 10 (rev (sort (map (column_2 (dep_var_2 (selector_opts v)))
                               (country_var_of start_time end_time df))))
     \<and> length (bar_data out) = min 10 (length (country_var_of start_time end_time df))
     \<and> descending (map snd (bar_data out))
     \<and> (strictly_descending (map snd (bar_data out)) \<longleftrightarrow> distinct (map snd (bar_data out)))
     \<and> (distinct (map (column_2 (dep_var_2 (selector_opts v))) (country_var_of start_time end_time df))
          \<longrightarrow> strictly_descending (map snd (bar_data out)))
     \<and> (\<forall>r\<in>set (country_var_of start_time end_time df).
           (inde r, column_2 (dep_var_2 (selector_opts v)) r) \<notin> set (bar_data out) \<longrightarrow>
             (\<forall>p\<in>set (bar_data out). column_2 (dep_var_2 (selector_opts v)) r \<le> snd p))"
proof -
  let ?cv = "country_var_of start_time end_time df"
  let ?col = "column_2 (dep_var_2 (selector_opts v))"
  let ?t = "quicksort_ties s"
  let ?out = "\<lparr>ax_data = world_var (naturalearth_lowres s) ?cv,
               ax_color_index = dep_var_2 (selector_opts v),
               bar_data = bar_points ?t v ?cv\<rparr>"
  have ret: "snd (major_disaster_map s natural_disaster_df start_time end_time (Some v)) = Inr ?out"
    by (rule major_disaster_map_returns [OF assms])
  have bars: "bar_data ?out = map (\<lambda>r. (inde r, ?col r)) (take 10 (sort_values_desc ?t ?col ?cv))"
    by (simp add: bar_points_def bar_rows_def)
  have sub: "set (bar_data ?out) \<subseteq> (\<lambda>r. (inde r, ?col r)) ` set ?cv"
    using set_bar_points [of ?t v ?cv] by simp
  have "distinct (map inde ?cv)"
    by (simp add: country_var_of_def distinct_inde_country_var)
  then have once: "distinct (map fst (bar_data ?out))"
    by (simp add: distinct_fst_bar_points)
  have vals: "map snd (bar_data ?out) = take 10 (rev (sort (map ?col ?cv)))"
    by (simp add: map_snd_bar_points)
  have len: "length (bar_data ?out) = min 10 (length ?cv)"
    by (simp add: length_bar_points_eq)
  have desc: "descending (map snd (bar_data ?out))"
    by (simp add: descending_bar_points)
  have iff: "strictly_descending (map snd (bar_data ?out)) \<longleftrightarrow> distinct (map snd (bar_data ?out))"
    by (simp add: strictly_descending_bar_points_iff)
  have strict: "distinct (map ?col ?cv) \<longrightarrow> strictly_descending (map snd (bar_data ?out))"
    by (simp add: strictly_descending_bar_points)
  have top: "?col r \<le> snd p"
    if "r \<in> set ?cv" and "(inde r, ?col r) \<notin> set (bar_data ?out)" and "p \<in> set (bar_data ?out)" for r p
  proof -
    from that(2) have "r \<notin> set (bar_rows ?t v ?cv)"
      by (auto simp: bar_points_def)
    moreover from that(3) obtain q where "q \<in> set (bar_rows ?t v ?cv)" and "snd p = ?col q"
      by (auto simp: bar_points_def)
    ultimately show ?thesis
      using bar_rows_top [OF that(1), of ?t v q] by simp
  qed
  from ret bars sub once vals len desc iff strict top show ?thesis by blast
qed

theorem bar_chart_top_10_descending_witness:
  "deref (example_state tie_df []) 0 = DisasterFrame tie_df
   \<and> descending (map snd (bar_data_of (major_disaster_map (example_state tie_df []) 0 (jan_1 2000)
                                          (jan_1 2000) (Some Deaths))))
   \<and> length (bar_data_of (major_disaster_map (example_state tie_df []) 0 (jan_1 2000) (jan_1 2000)
                            (Some Deaths))) = 2"
proof -
  let ?s = "example_state tie_df []"
  have h: "deref ?s 0 = DisasterFrame tie_df"
    by (rule deref_example_state_0)
  from bar_chart_top_10_descending [OF h, of "jan_1 2000" "jan_1 2000" Deaths]
  obtain out where "snd (major_disaster_map ?s 0 (jan_1 2000) (jan_1 2000) (Some Deaths)) = Inr out"
    "descending (map snd (bar_data out))"
    by blast
  then have "descending (map snd (bar_data_of (major_disaster_map ?s 0 (jan_1 2000) (jan_1 2000)
                                                 (Some Deaths))))"
    by (simp add: bar_data_of_def)
  moreover have "length (bar_data_of (major_disaster_map ?s 0 (jan_1 2000) (jan_1 2000) (Some Deaths))) = 2"
    by (simp add: bar_data_of_example(1) [OF h] quicksort_ties_example_state bar_points_tie)
  ultimately show ?thesis
    using h by blast
qed

text \<open>
  C2 as stated fails: two countries with 5 deaths each in 2000 give the bars 5, 5, which
  are not strictly descending.
\<close>

theorem bar_chart_ties_counterexample:
  "bar_data_of (major_disaster_map (example_state tie_df []) 0 (jan_1 2000) (jan_1 2000) (Some Deaths))
     = [(''CHN'', 5), (''USA'', 5)]
   \<and> \<not> strictly_descending
         (map snd (bar_data_of (major_disaster_map (example_state tie_df []) 0 (jan_1 2000) (jan_1 2000)
                                  (Some Deaths))))"
  by (simp add: bar_data_of_example(1) [OF deref_example_state_0] quicksort_ties_example_state
      bar_points_tie)

text \<open>
  C3. In both map builders the aggregation is joined onto the polygons by a left join
  with the polygons on the left: the merged table has exactly the rows of the polygon
  table, in its order; a polygon whose code is not in the index of the aggregation has 0
  in every aggregate column (and in \<^verbatim>\<open>inde\<close>); and a polygon whose code is in the index
  carries that code and the values of its row of the aggregation (a count as it is, any
  value up to \<open>2 ^ 53\<close> in magnitude as it is).
\<close>

theorem left_join_keeps_every_polygon:
  assumes "deref s natural_disaster_df = DisasterFrame df"
  shows "(\<exists>out. snd (major_disaster_distribution s natural_disaster_df) = Inr out
            \<and> map fst (count_data out) = naturalearth_lowres s
            \<and> (\<forall>(w, v)\<in>set (count_data out).
                  (iso_a3 w \<notin> set (map fst (country_count df)) \<longrightarrow>
                     count_Year_2 v = 0 \<and> count_inde v = Num 0)
                  \<and> (\<forall>n. (iso_a3 w, n) \<in> set (country_count df) \<longrightarrow>
                        count_Year_2 v = n \<and> count_inde v = Str (iso_a3 w))))
       \<and> (\<exists>out. snd (major_disaster_map s natural_disaster_df start_time end_time (Some vis)) = Inr out
            \<and> map fst (ax_data out) = naturalearth_lowres s
            \<and> (\<forall>(w, v)\<in>set (ax_data out).
                  (iso_a3 w \<notin> set (map inde (country_var_of start_time end_time df)) \<longrightarrow>
                     (\<forall>c. column_2 c v = 0) \<and> inde v = Num 0)
                  \<and> (\<forall>row\<in>set (country_var_of start_time end_time df).
                        inde row = iso_a3 w \<longrightarrow>
                          inde v = Str (iso_a3 w)
                          \<and> (\<forall>c. \<bar>column_2 c row\<bar> \<le> 2 ^ 53 \<longrightarrow> column_2 c v = column_2 c row))))"
proof (intro conjI)
  let ?cc = "country_count_frame (country_count df)"
  let ?out = "\<lparr>count_data = world_count (naturalearth_lowres s) ?cc,
               count_vdims = [(''Year_2'', ''# disasters''), (''name'', ''Country'')]\<rparr>"
  have ret: "snd (major_disaster_distribution s natural_disaster_df) = Inr ?out"
    by (rule major_disaster_distribution_returns [OF assms])
  have keep: "map fst (count_data ?out) = naturalearth_lowres s"
    by (simp add: map_fst_world_count)
  have absent: "count_Year_2 v = 0 \<and> count_inde v = Num 0"
    if "(w, v) \<in> set (world_count (naturalearth_lowres s) ?cc)"
      and "iso_a3 w \<notin> set (map fst (country_count df))" for w v
    using world_count_absent [OF that] by simp
  have matched: "count_Year_2 v = n \<and> count_inde v = Str (iso_a3 w)"
    if "(w, v) \<in> set (world_count (naturalearth_lowres s) ?cc)"
      and "(iso_a3 w, n) \<in> set (country_count df)" for w v n
    using world_count_matched [OF that] by simp
  have "\<forall>(w, v)\<in>set (count_data ?out).
          (iso_a3 w \<notin> set (map fst (country_count df)) \<longrightarrow>
             count_Year_2 v = 0 \<and> count_inde v = Num 0)
          \<and> (\<forall>n. (iso_a3 w, n) \<in> set (country_count df) \<longrightarrow>
                count_Year_2 v = n \<and> count_inde v = Str (iso_a3 w))"
  proof (intro ballI, clarify, intro conjI impI allI)
    fix w v assume in_data: "(w, v) \<in> set (count_data ?out)"
    then have in_wc: "(w, v) \<in> set (world_count (naturalearth_lowres s) ?cc)"
      by simp
    {
      assume "iso_a3 w \<notin> set (map fst (country_count df))"
      from absent [OF in_wc this]
      show "count_Year_2 v = 0" and "count_inde v = Num 0"
        by simp_all
    }
    {
      fix n assume "(iso_a3 w, n) \<in> set (country_count df)"
      from matched [OF in_wc this]
      show "count_Year_2 v = n" and "count_inde v = Str (iso_a3 w)"
        by simp_all
    }
  qed
  with ret keep
  show "\<exists>out. snd (major_disaster_distribution s natural_disaster_df) = Inr out
            \<and> map fst (count_data out) = naturalearth_lowres s
            \<and> (\<forall>(w, v)\<in>set (count_data out).
                  (iso_a3 w \<notin> set (map fst (country_count df)) \<longrightarrow>
                     count_Year_2 v = 0 \<and> count_inde v = Num 0)
                  \<and> (\<forall>n. (iso_a3 w, n) \<in> set (country_count df) \<longrightarrow>
                        count_Year_2 v = n \<and> count_inde v = Str (iso_a3 w)))"
    by blast
next
  let ?R = "restricted_df (year start_time) (year end_time) df"
  let ?cv = "country_var_of start_time end_time df"
  let ?out = "\<lparr>ax_data = world_var (naturalearth_lowres s) ?cv,
               ax_color_index = dep_var_2 (selector_opts vis),
               bar_data = bar_points (quicksort_ties s) vis ?cv\<rparr>"
  have cv: "?cv = country_var ?R"
    by (simp add: country_var_of_def)
  have ret: "snd (major_disaster_map s natural_disaster_df start_time end_time (Some vis)) = Inr ?out"
    by (rule major_disaster_map_returns [OF assms])
  have keep: "map fst (ax_data ?out) = naturalearth_lowres s"
    by (simp add: cv map_fst_world_var)
  have absent: "(\<forall>c. column_2 c v = 0) \<and> inde v = Num 0"
    if "(w, v) \<in> set (world_var (naturalearth_lowres s) (country_var ?R))"
      and "iso_a3 w \<notin> set (map inde (country_var ?R))" for w v
  proof -
    from world_var_absent [OF that] have v: "v = fillna_0 None" .
    have "inde (fillna_0 None) = Num 0" by (simp add: fillna_0_def)
    with v show ?thesis by (simp add: column_2_fillna_0_None)
  qed
  have matched: "inde v = Str (iso_a3 w) \<and> (\<forall>c. \<bar>column_2 c row\<bar> \<le> 2 ^ 53 \<longrightarrow> column_2 c v = column_2 c row)"
    if "(w, v) \<in> set (world_var (naturalearth_lowres s) (country_var ?R))"
      and "row \<in> set (country_var ?R)" and "inde row = iso_a3 w" for w v row
  proof -
    from world_var_matched [OF that] have v: "v = fillna_0 (Some row)" .
    have "inde (fillna_0 (Some row)) = Str (inde row)" by (simp add: fillna_0_def)
    with v that(3) show ?thesis by (simp add: column_2_fillna_0_Some)
  qed
  have "\<forall>(w, v)\<in>set (ax_data ?out).
          (iso_a3 w \<notin> set (map inde ?cv) \<longrightarrow> (\<forall>c. column_2 c v = 0) \<and> inde v = Num 0)
          \<and> (\<forall>row\<in>set ?cv. inde row = iso_a3 w \<longrightarrow>
                inde v = Str (iso_a3 w)
                \<and> (\<forall>c. \<bar>column_2 c row\<bar> \<le> 2 ^ 53 \<longrightarrow> column_2 c v = column_2 c row))"
    unfolding cv
  proof (intro ballI, clarify, intro conjI impI ballI)
    fix w v assume "(w, v) \<in> set (ax_data \<lparr>ax_data = world_var (naturalearth_lowres s) (country_var ?R),
               ax_color_index = dep_var_2 (selector_opts vis),
               bar_data = bar_points (quicksort_ties s) vis (country_var ?R)\<rparr>)"
    then have in_wv: "(w, v) \<in> set (world_var (naturalearth_lowres s) (country_var ?R))"
      by simp
    {
      assume "iso_a3 w \<notin> set (map inde (country_var ?R))"
      from absent [OF in_wv this]
      show "\<forall>c. column_2 c v = 0" and "inde v = Num 0"
        by simp_all
    }
    {
      fix row assume "row \<in> set (country_var ?R)" and "inde row = iso_a3 w"
      from matched [OF in_wv this]
      show "inde v = Str (iso_a3 w)"
        and "\<forall>c. \<bar>column_2 c row\<bar> \<le> 2 ^ 53 \<longrightarrow> column_2 c v = column_2 c row"
        by simp_all
    }
  qed
  with ret keep
  show "\<exists>out. snd (major_disaster_map s natural_disaster_df start_time end_time (Some vis)) = Inr out
            \<and> map fst (ax_data out) = naturalearth_lowres s
            \<and> (\<forall>(w, v)\<in>set (ax_data out).
                  (iso_a3 w \<notin> set (map inde ?cv) \<longrightarrow> (\<forall>c. column_2 c v = 0) \<and> inde v = Num 0)
                  \<and> (\<forall>row\<in>set ?cv. inde row = iso_a3 w \<longrightarrow>
                        inde v = Str (iso_a3 w)
                        \<and> (\<forall>c. \<bar>column_2 c row\<bar> \<le> 2 ^ 53 \<longrightarrow> column_2 c v = column_2 c row)))"
    by blast
qed

theorem left_join_keeps_every_polygon_witness:
  "deref (example_state tie_df []) 0 = DisasterFrame tie_df
   \<and> map fst (count_data_of (major_disaster_distribution (example_state tie_df []) 0)) = example_world
   \<and> map fst (ax_data_of (major_disaster_map (example_state tie_df []) 0 (jan_1 2000) (jan_1 2000)
                             (Some Deaths))) = example_world
   \<and> map (\<lambda>p. count_Year_2 (snd p))
        (count_data_of (major_disaster_distribution (example_state tie_df []) 0)) = [1, 0]
   \<and> map (\<lambda>p. (inde (snd p), TD_2 (snd p)))
        (ax_data_of (major_disaster_map (example_state tie_df []) 0 (jan_1 2000) (jan_1 2000)
                       (Some Deaths))) = [(Str ''USA'', 5), (Num 0, 0)]"
proof -
  let ?s = "example_state tie_df []"
  have h: "deref ?s 0 = DisasterFrame tie_df"
    by (rule deref_example_state_0)
  from left_join_keeps_every_polygon [OF h, of "jan_1 2000" "jan_1 2000" Deaths]
  obtain out1 out2 where
    "snd (major_disaster_distribution ?s 0) = Inr out1"
    "map fst (count_data out1) = naturalearth_lowres ?s"
    "snd (major_disaster_map ?s 0 (jan_1 2000) (jan_1 2000) (Some Deaths)) = Inr out2"
    "map fst (ax_data out2) = naturalearth_lowres ?s"
    by blast
  then have "map fst (count_data_of (major_disaster_distribution ?s 0)) = example_world"
    and "map fst (ax_data_of (major_disaster_map ?s 0 (jan_1 2000) (jan_1 2000) (Some Deaths)))
         = example_world"
    by (simp_all add: count_data_of_def ax_data_of_def naturalearth_example_state)
  moreover have "map (\<lambda>p. count_Year_2 (snd p)) (count_data_of (major_disaster_distribution ?s 0)) = [1, 0]"
    using major_disaster_distribution_returns [OF h]
    by (simp add: count_data_of_def naturalearth_example_state world_count_tie)
  moreover have "map (\<lambda>p. (inde (snd p), TD_2 (snd p)))
        (ax_data_of (major_disaster_map ?s 0 (jan_1 2000) (jan_1 2000) (Some Deaths)))
         = [(Str ''USA'', 5), (Num 0, 0)]"
    by (simp add: bar_data_of_example(2) [OF h] naturalearth_example_state world_var_tie)
  ultimately show ?thesis
    using h by blast
qed

text \<open>
  C4. \<^verbatim>\<open>death_vs_gdp\<close> on a disaster table and a GDP table returns \<^verbatim>\<open>None\<close> and
  plots exactly the rows of the left join on (ISO, Year) = (Code, Year) whose
  \<^verbatim>\<open>Total Deaths\<close> exceeds 5000 and whose \<^verbatim>\<open>Total Deaths\<close> and
  \<^verbatim>\<open>GDP per capita\<close> are both present; the join holds every disaster row with each
  GDP row of equal key, or once alone when there is none.
\<close>

theorem scatter_rows_are_the_major_complete_rows:
  assumes "deref s natural_disaster_df = DisasterFrame nd" and "deref s gdp_df = GdpFrame gdp"
  shows "snd (death_vs_gdp s natural_disaster_df gdp_df) = Inr ()
    \<and> figures (fst (death_vs_gdp s natural_disaster_df gdp_df)) =
        figures s @
        [map (\<lambda>j. (joined_Total_Deaths j, joined_GDP_per_capita j))
           (filter (\<lambda>j. (case joined_Total_Deaths j of None \<Rightarrow> False | Some d \<Rightarrow> d > 5000)
                        \<and> joined_Total_Deaths j \<noteq> None \<and> joined_GDP_per_capita j \<noteq> None)
              (joined_df nd gdp))]
    \<and> set (joined_df nd gdp) =
        {(l, Some r) | l r. l \<in> set nd \<and> r \<in> set gdp \<and> Code r = ISO l \<and> Year_gdp r = Year l}
        \<union> {(l, None) | l. l \<in> set nd \<and> (\<forall>r\<in>set gdp. \<not> (Code r = ISO l \<and> Year_gdp r = Year l))}"
proof -
  have "set (joined_df nd gdp) =
        {(l, Some r) | l r. l \<in> set nd \<and> r \<in> set gdp \<and> Code r = ISO l \<and> Year_gdp r = Year l}
        \<union> {(l, None) | l. l \<in> set nd \<and> (\<forall>r\<in>set gdp. \<not> (Code r = ISO l \<and> Year_gdp r = Year l))}"
    by (simp add: joined_df_def set_merge_left)
  with death_vs_gdp_returns [OF assms] show ?thesis
    by (simp add: new_df_alt)
qed

text \<open>
  The example of C4: of the joined rows (6000 deaths, GDP 500) and (3000 deaths, GDP 700)
  only the first is plotted.
\<close>

theorem scatter_rows_are_the_major_complete_rows_witness:
  "deref (example_state scatter_df scatter_gdp) 0 = DisasterFrame scatter_df
   \<and> deref (example_state scatter_df scatter_gdp) (Suc 0) = GdpFrame scatter_gdp
   \<and> snd (death_vs_gdp (example_state scatter_df scatter_gdp) 0 (Suc 0)) = Inr ()
   \<and> figures (fst (death_vs_gdp (example_state scatter_df scatter_gdp) 0 (Suc 0))) = [[(Some 6000, Some 500)]]"
proof -
  let ?s = "example_state scatter_df scatter_gdp"
  have h0: "deref ?s 0 = DisasterFrame scatter_df"
    by (rule deref_example_state_0)
  have h1: "deref ?s (Suc 0) = GdpFrame scatter_gdp"
    by (rule deref_example_state_1)
  have "figures ?s = []"
    by (simp add: example_state_def)
  with scatter_rows_are_the_major_complete_rows [OF h0 h1] h0 h1 show ?thesis
    using new_df_scatter by (simp add: new_df_alt)
qed

text \<open>
  C5. An empty disaster table passed to \<^verbatim>\<open>map_distribution_cases\<close> does not complete:
  the minimum of the empty \<^verbatim>\<open>Year\<close> column is NaN, and \<^verbatim>\<open>dt.datetime\<close> refuses
  it with a TypeError (line 148).
\<close>

theorem empty_table_raises_in_map_distribution_cases:
  "snd (map_distribution_cases (example_state [] []) 0 (PyBool True)) = Inl TypeError"
  by (simp add: map_distribution_cases_def deref_example_state_0 series_min_def List.map_filter_simps)

text \<open>
  C6, as amended. For every disaster table, the value \<^verbatim>\<open>major_disaster_distribution\<close>
  gives a polygon is the number of disaster rows with the polygon's code and a year that
  is not missing; it is the number of all rows with that code when no year of the table
  is missing, and 0 for a country without a row in the table.
\<close>

theorem disaster_count_per_country:
  assumes "deref s natural_disaster_df = DisasterFrame df"
  shows "\<exists>out. snd (major_disaster_distribution s natural_disaster_df) = Inr out
     \<and> map fst (count_data out) = naturalearth_lowres s
     \<and> (\<forall>(w, v)\<in>set (count_data out).
          count_Year_2 v = int (length (filter (\<lambda>r. ISO r = Some (iso_a3 w) \<and> Year r \<noteq> None) df))
          \<and> ((\<forall>r\<in>set df. Year r \<noteq> None) \<longrightarrow> count_Year_2 v = rows_of_country (iso_a3 w) df)
          \<and> ((\<forall>r\<in>set df. ISO r \<noteq> Some (iso_a3 w)) \<longrightarrow> count_Year_2 v = 0))"
proof -
  let ?out = "\<lparr>count_data = world_count (naturalearth_lowres s) (country_count_frame (country_count df)),
               count_vdims = [(''Year_2'', ''# disasters''), (''name'', ''Country'')]\<rparr>"
  have ret: "snd (major_disaster_distribution s natural_disaster_df) = Inr ?out"
    by (rule major_disaster_distribution_returns [OF assms])
  have keep: "map fst (count_data ?out) = naturalearth_lowres s"
    by (simp add: map_fst_world_count)
  have val: "count_Year_2 v = int (length (filter (\<lambda>r. ISO r = Some (iso_a3 w) \<and> Year r \<noteq> None) df))"
    if "(w, v) \<in> set (count_data ?out)" for w v
    using that world_count_value [of w v "naturalearth_lowres s" df] by simp
  have full: "count_Year_2 v = rows_of_country (iso_a3 w) df"
    if "(w, v) \<in> set (count_data ?out)" and "\<forall>r\<in>set df. Year r \<noteq> None" for w v
  proof -
    from that(2) have "filter (\<lambda>r. ISO r = Some (iso_a3 w) \<and> Year r \<noteq> None) df
                     = filter (\<lambda>r. ISO r = Some (iso_a3 w)) df"
      by (auto intro: filter_cong)
    with val [OF that(1)] show ?thesis by (simp add: rows_of_country_def)
  qed
  have none: "count_Year_2 v = 0"
    if "(w, v) \<in> set (count_data ?out)" and "\<forall>r\<in>set df. ISO r \<noteq> Some (iso_a3 w)" for w v
  proof -
    from that(2) have "filter (\<lambda>r. ISO r = Some (iso_a3 w) \<and> Year r \<noteq> None) df = []"
      by (auto simp: filter_empty_conv)
    with val [OF that(1)] show ?thesis by simp
  qed
  from ret keep val full none show ?thesis by blast
qed

theorem disaster_count_per_country_witness:
  "deref (example_state example_df []) 0 = DisasterFrame example_df
   \<and> map (\<lambda>p. count_Year_2 (snd p)) (count_data_of (major_disaster_distribution (example_state example_df []) 0))
       = [3, 1]"
proof -
  let ?s = "example_state example_df []"
  have h: "deref ?s 0 = DisasterFrame example_df"
    by (rule deref_example_state_0)
  from disaster_count_per_country [OF h]
  obtain out where out: "snd (major_disaster_distribution ?s 0) = Inr out"
    "map fst (count_data out) = naturalearth_lowres ?s"
    "\<forall>(w, v)\<in>set (count_data out).
       count_Year_2 v = int (length (filter (\<lambda>r. ISO r = Some (iso_a3 w) \<and> Year r \<noteq> None) example_df))"
    by blast
  from out(3) have "map (\<lambda>p. count_Year_2 (snd p)) (count_data out) =
      map (\<lambda>w. int (length (filter (\<lambda>r. ISO r = Some (iso_a3 w) \<and> Year r \<noteq> None) example_df)))
        (map fst (count_data out))"
    by (auto simp: comp_def)
  also have "\<dots> = [3, 1]"
    by (simp add: out(2) naturalearth_example_state example_world_def example_df_def event_def)
  finally show ?thesis
    using h out(1) by (simp add: count_data_of_def)
qed

text \<open>
  C6 as stated fails: a table with one row for USA whose year is missing gives USA the
  count 0, where the number of rows for USA is 1.
\<close>

theorem disaster_count_counterexample:
  "count_data_of (major_disaster_distribution (example_state nan_year_df []) 0) =
     [(\<lparr>iso_a3 = ''USA'', name = ''United States of America''\<rparr>, \<lparr>count_inde = Str ''USA'', count_Year_2 = 0\<rparr>),
      (\<lparr>iso_a3 = ''FRA'', name = ''France''\<rparr>, \<lparr>count_inde = Num 0, count_Year_2 = 0\<rparr>)]
   \<and> rows_of_country ''USA'' nan_year_df = 1"
proof -
  have "rows_of_country ''USA'' nan_year_df = 1"
    by (simp add: rows_of_country_def nan_year_df_def event_def)
  then show ?thesis
    using major_disaster_distribution_returns [OF deref_example_state_0, of nan_year_df "[]"]
    by (simp add: count_data_of_def naturalearth_example_state world_count_nan_year)
qed



text \<open>
  C8. Calling a reporter a second time, on the same references and in the state the
  first call left, gives the same result: the same returned visuals (or the same error),
  and for \<^verbatim>\<open>death_vs_gdp\<close> the same plotted points as the first call added.
\<close>

theorem reporters_are_repeatable:
  "snd (death_vs_gdp (fst (death_vs_gdp s natural_disaster_df gdp_df)) natural_disaster_df gdp_df)
     = snd (death_vs_gdp s natural_disaster_df gdp_df)
   \<and> drop (length (figures (fst (death_vs_gdp s natural_disaster_df gdp_df))))
        (figures (fst (death_vs_gdp (fst (death_vs_gdp s natural_disaster_df gdp_df))
                         natural_disaster_df gdp_df)))
     = drop (length (figures s)) (figures (fst (death_vs_gdp s natural_disaster_df gdp_df)))
   \<and> snd (major_disaster_distribution (fst (major_disaster_distribution s natural_disaster_df))
            natural_disaster_df)
     = snd (major_disaster_distribution s natural_disaster_df)
   \<and> snd (map_distribution_cases (fst (map_distribution_cases s natural_disaster_df voila))
            natural_disaster_df voila)
     = snd (map_distribution_cases s natural_disaster_df voila)
   \<and> snd (major_disaster_map (fst (major_disaster_map s natural_disaster_df start_time end_time vis_type))
            natural_disaster_df start_time end_time vis_type)
     = snd (major_disaster_map s natural_disaster_df start_time end_time vis_type)"
proof -
  have "snd (major_disaster_distribution (fst (major_disaster_distribution s natural_disaster_df))
            natural_disaster_df)
     = snd (major_disaster_distribution s natural_disaster_df)"
    by (simp only: major_disaster_distribution_snd major_disaster_distribution_deref_self
        major_disaster_distribution_world)
  moreover have "snd (major_disaster_map (fst (major_disaster_map s natural_disaster_df start_time end_time vis_type))
            natural_disaster_df start_time end_time vis_type)
     = snd (major_disaster_map s natural_disaster_df start_time end_time vis_type)"
    by (simp only: major_disaster_map_snd major_disaster_map_deref_self major_disaster_map_world
        major_disaster_map_ties)
  ultimately show ?thesis
    using death_vs_gdp_twice [of s natural_disaster_df gdp_df]
    by (simp add: map_distribution_cases_state)
qed

text \<open>
  C9. No entry point and no run of the callback changes an object that existed before
  the call, so the disaster table and the GDP table are as they were: the heap before the
  call is a prefix of the heap after it (the new frames come after it, and the one write
  in place goes to a new frame). The polygon dataset on disk is unchanged too.
\<close>

theorem inputs_are_never_mutated:
  "take (length (heap s)) (heap (fst (death_vs_gdp s natural_disaster_df gdp_df))) = heap s
   \<and> take (length (heap s)) (heap (fst (major_disaster_distribution s natural_disaster_df))) = heap s
   \<and> take (length (heap s)) (heap (fst (map_distribution_cases s natural_disaster_df voila))) = heap s
   \<and> take (length (heap s))
        (heap (fst (major_disaster_map s natural_disaster_df start_time end_time vis_type))) = heap s
   \<and> naturalearth_lowres (fst (death_vs_gdp s natural_disaster_df gdp_df)) = naturalearth_lowres s
   \<and> naturalearth_lowres (fst (major_disaster_distribution s natural_disaster_df)) = naturalearth_lowres s
   \<and> naturalearth_lowres (fst (map_distribution_cases s natural_disaster_df voila)) = naturalearth_lowres s
   \<and> naturalearth_lowres (fst (major_disaster_map s natural_disaster_df start_time end_time vis_type))
       = naturalearth_lowres s"
  by (simp add: death_vs_gdp_prefix major_disaster_distribution_prefix major_disaster_map_prefix
      map_distribution_cases_state death_vs_gdp_world major_disaster_distribution_world
      major_disaster_map_world)

text \<open>
  C10. For every selector aggregated by a sum, missing cells count nothing: the value of
  a country in the per-country table is the sum of the present cells of the source column
  over the country's rows in the date range (stated for cells that add up to \<open>2 ^ 53\<close>
  at most in magnitude, where the arithmetic of the code is exact). So a country all of
  whose rows in the range miss the cell has the value 0 in the table, on its polygons of
  the map, and on its bar when it has one: as a country whose cells add up to zero.
\<close>

theorem sums_skip_missing_cells:
  assumes "deref s natural_disaster_df = DisasterFrame df"
    and "group_op (selector_opts v) = Sum"
  shows "\<exists>out. snd (major_disaster_map s natural_disaster_df start_time end_time (Some v)) = Inr out
    \<and> ax_color_index out = dep_var_2 (selector_opts v)
    \<and> (\<forall>row\<in>set (country_var_of start_time end_time df).
          (sum_abs (column (dep_var (selector_opts v)))
             (filter (\<lambda>r. ISO r = Some (inde row))
                (restricted_df (year start_time) (year end_time) df)) \<le> 2 ^ 53 \<longrightarrow>
           column_2 (dep_var_2 (selector_opts v)) row =
             (\<Sum>r\<leftarrow>filter (\<lambda>r. ISO r = Some (inde row))
                      (restricted_df (year start_time) (year end_time) df).
                case column (dep_var (selector_opts v)) r of None \<Rightarrow> 0 | Some x \<Rightarrow> x))
          \<and> ((\<forall>r\<in>set (restricted_df (year start_time) (year end_time) df).
                 ISO r = Some (inde row) \<longrightarrow> column (dep_var (selector_opts v)) r = None) \<longrightarrow>
               column_2 (dep_var_2 (selector_opts v)) row = 0
               \<and> (\<forall>(w, x)\<in>set (ax_data out).
                     iso_a3 w = inde row \<longrightarrow> column_2 (ax_color_index out) x = 0)
               \<and> (\<forall>p\<in>set (bar_data out). fst p = inde row \<longrightarrow> snd p = 0)))"
proof -
  let ?R = "restricted_df (year start_time) (year end_time) df"
  let ?cv = "country_var_of start_time end_time df"
  let ?col = "column_2 (dep_var_2 (selector_opts v))"
  let ?src = "column (dep_var (selector_opts v))"
  let ?out = "\<lparr>ax_data = world_var (naturalearth_lowres s) ?cv,
               ax_color_index = dep_var_2 (selector_opts v),
               bar_data = bar_points (quicksort_ties s) v ?cv\<rparr>"
  have cv: "?cv = country_var ?R"
    by (simp add: country_var_of_def)
  have ret: "snd (major_disaster_map s natural_disaster_df start_time end_time (Some v)) = Inr ?out"
    by (rule major_disaster_map_returns [OF assms(1)])
  have val: "?col row = (\<Sum>r\<leftarrow>filter (\<lambda>r. ISO r = Some (inde row)) ?R.
                           case ?src r of None \<Rightarrow> 0 | Some x \<Rightarrow> x)"
    if "row \<in> set ?cv"
      and "sum_abs ?src (filter (\<lambda>r. ISO r = Some (inde row)) ?R) \<le> 2 ^ 53" for row
    using that(1) country_var_row_of [of row ?R v] sum_skipna_exact(1) [OF that(2)]
    by (simp add: cv aggregate_Sum [OF assms(2)])
  have zero: "aggregate v (filter (\<lambda>r. ISO r = Some c) ?R) = 0"
    if "\<forall>r\<in>set ?R. ISO r = Some c \<longrightarrow> ?src r = None" for c
    using that by (simp add: aggregate_Sum [OF assms(2)] sum_skipna_all_missing)
  have row0: "?col row = 0"
    if "row \<in> set ?cv" and "\<forall>r\<in>set ?R. ISO r = Some (inde row) \<longrightarrow> ?src r = None" for row
    using that(1) country_var_row_of [of row ?R v] zero [OF that(2)] by (simp add: cv)
  have map0: "column_2 (ax_color_index ?out) x = 0"
    if "\<forall>r\<in>set ?R. ISO r = Some (inde row) \<longrightarrow> ?src r = None"
      and "(w, x) \<in> set (ax_data ?out)" and "iso_a3 w = inde row" for row :: "string country_var_row" and w x
    using that(2,3) world_var_value [of w x "naturalearth_lowres s" ?R v] zero [OF that(1)]
    by (simp add: cv)
  have bar0: "snd p = 0"
    if "\<forall>r\<in>set ?R. ISO r = Some (inde row) \<longrightarrow> ?src r = None"
      and "p \<in> set (bar_data ?out)" and "fst p = inde row" for row :: "string country_var_row" and p
    using that(2,3) bar_points_value [of p "quicksort_ties s" v ?R] zero [OF that(1)]
    by (simp add: cv)
  have all: "(sum_abs ?src (filter (\<lambda>r. ISO r = Some (inde row)) ?R) \<le> 2 ^ 53 \<longrightarrow>
           ?col row = (\<Sum>r\<leftarrow>filter (\<lambda>r. ISO r = Some (inde row)) ?R.
                         case ?src r of None \<Rightarrow> 0 | Some x \<Rightarrow> x))
          \<and> ((\<forall>r\<in>set ?R. ISO r = Some (inde row) \<longrightarrow> ?src r = None) \<longrightarrow>
               ?col row = 0
               \<and> (\<forall>(w, x)\<in>set (ax_data ?out).
                     iso_a3 w = inde row \<longrightarrow> column_2 (ax_color_index ?out) x = 0)
               \<and> (\<forall>p\<in>set (bar_data ?out). fst p = inde row \<longrightarrow> snd p = 0))"
    if row: "row \<in> set ?cv" for row
  proof (intro conjI impI)
    assume "sum_abs ?src (filter (\<lambda>r. ISO r = Some (inde row)) ?R) \<le> 2 ^ 53"
    then show "?col row = (\<Sum>r\<leftarrow>filter (\<lambda>r. ISO r = Some (inde row)) ?R.
                        case ?src r of None \<Rightarrow> 0 | Some x \<Rightarrow> x)"
      by (rule val [OF row])
  next
    assume m: "\<forall>r\<in>set ?R. ISO r = Some (inde row) \<longrightarrow> ?src r = None"
    show "?col row = 0"
      by (rule row0 [OF row m])
    show "\<forall>(w, x)\<in>set (ax_data ?out). iso_a3 w = inde row \<longrightarrow> column_2 (ax_color_index ?out) x = 0"
      using map0 [OF m] by blast
    show "\<forall>p\<in>set (bar_data ?out). fst p = inde row \<longrightarrow> snd p = 0"
      using bar0 [OF m] by blast
  qed
  have "ax_color_index ?out = dep_var_2 (selector_opts v)"
    by simp
  with all have "ax_color_index ?out = dep_var_2 (selector_opts v)
    \<and> (\<forall>row\<in>set ?cv.
          (sum_abs ?src (filter (\<lambda>r. ISO r = Some (inde row)) ?R) \<le> 2 ^ 53 \<longrightarrow>
           ?col row = (\<Sum>r\<leftarrow>filter (\<lambda>r. ISO r = Some (inde row)) ?R.
                         case ?src r of None \<Rightarrow> 0 | Some x \<Rightarrow> x))
          \<and> ((\<forall>r\<in>set ?R. ISO r = Some (inde row) \<longrightarrow> ?src r = None) \<longrightarrow>
               ?col row = 0
               \<and> (\<forall>(w, x)\<in>set (ax_data ?out).
                     iso_a3 w = inde row \<longrightarrow> column_2 (ax_color_index ?out) x = 0)
               \<and> (\<forall>p\<in>set (bar_data ?out). fst p = inde row \<longrightarrow> snd p = 0)))"
    by blast
  with ret show ?thesis by blast
qed

theorem sums_skip_missing_cells_witness:
  "deref (example_state example_df []) 0 = DisasterFrame example_df
   \<and> group_op (selector_opts Deaths) = Sum
   \<and> sum_abs Total_Deaths example_df \<le> 2 ^ 53
   \<and> bar_data_of (major_disaster_map (example_state example_df []) 0 (jan_1 2000) (jan_1 2000) (Some Deaths))
       = [(''USA'', 10), (''CHN'', 7), (''FRA'', 0)]
   \<and> map (\<lambda>p. TD_2 (snd p))
        (ax_data_of (major_disaster_map (example_state example_df []) 0 (jan_1 2000) (jan_1 2000)
                       (Some Deaths))) = [10, 0]"
proof -
  let ?s = "example_state example_df []"
  have h: "deref ?s 0 = DisasterFrame example_df"
    by (rule deref_example_state_0)
  have g: "group_op (selector_opts Deaths) = Sum"
    by simp
  from sums_skip_missing_cells [OF h g, of "jan_1 2000" "jan_1 2000"]
  obtain out where out: "snd (major_disaster_map ?s 0 (jan_1 2000) (jan_1 2000) (Some Deaths)) = Inr out"
    by blast
  have "bar_data_of (major_disaster_map ?s 0 (jan_1 2000) (jan_1 2000) (Some Deaths))
       = [(''USA'', 10), (''CHN'', 7), (''FRA'', 0)]"
    by (simp add: bar_data_of_example(1) [OF h] quicksort_ties_example_state bar_points_example)
  moreover have "map (\<lambda>p. TD_2 (snd p))
        (ax_data_of (major_disaster_map ?s 0 (jan_1 2000) (jan_1 2000) (Some Deaths))) = [10, 0]"
    by (simp add: bar_data_of_example(2) [OF h] naturalearth_example_state world_var_example)
  ultimately show ?thesis
    using h g out sum_abs_example by blast
qed

end
